theory Spec2Isabelle
  imports Main
begin

section \<open>Data model (backend/models)\<close>

text \<open>
  Primary keys are UUIDs; only their identity matters, so they are natural numbers.
  A JavaScript \<open>Date\<close> is compared through its millisecond value, an integer.
  The four tables of the store are lists of rows, in insertion order.
\<close>

type_synonym uuid = nat
type_synonym date = int

text \<open>
  Text that \<open>String.prototype.trim\<close> inspects (a rejection reason) is a JavaScript
  string: the list of its UTF-16 code units. \<open>utf16\<close> embeds an ASCII literal.
\<close>

type_synonym js_string = "nat list"

definition utf16 :: "string \<Rightarrow> js_string" where
  "utf16 s = map of_char s"

text \<open>An \<open>INTEGER\<close> column holds 32 bits; the store refuses a value outside the range.\<close>

definition int4 :: "int \<Rightarrow> bool" where
  "int4 v \<longleftrightarrow> - 2147483648 \<le> v \<and> v \<le> 2147483647"

datatype role = role_student | role_professor

datatype session_status = upcoming | active | closed

datatype request_status = pending | approved | rejected | document_pending | completed

datatype document_status = pending_review | accepted | doc_rejected

text \<open>models/User.js (the fields the workflow reads and writes).\<close>

record User =
  u_id :: uuid
  u_name :: string
  u_role :: role
  approvedProfessorId :: "uuid option"
  maxStudents :: int
  currentStudentCount :: int

text \<open>models/RegistrationSession.js\<close>

record RegistrationSession =
  s_id :: uuid
  s_professorId :: uuid
  title :: string
  description :: "string option"
  startDate :: date
  endDate :: date
  s_status :: session_status
  maxSlots :: int
  availableSlots :: int

text \<open>models/CoordinationRequest.js\<close>

record CoordinationRequest =
  r_id :: uuid
  studentId :: uuid
  r_professorId :: uuid
  sessionId :: uuid
  dissertationTopic :: string
  message :: "string option"
  r_status :: request_status
  r_rejectionReason :: "js_string option"

text \<open>models/Document.js; \<open>upload\<close> is the file record left by the upload middleware.\<close>

record upload =
  fileName :: string
  originalName :: string
  mimeType :: string
  fileSize :: int
  filePath :: string

record Document =
  d_id :: uuid
  requestId :: uuid
  uploadedBy :: uuid
  uploaderRole :: role
  d_file :: upload
  d_status :: document_status
  d_rejectionReason :: "js_string option"

record db =
  users :: "User list"
  sessions :: "RegistrationSession list"
  requests :: "CoordinationRequest list"
  documents :: "Document list"

text \<open>
  What a handler throws (and hands to \<open>next(error)\<close>): a plain \<open>Error\<close> with its
  message, or one of the errors of the ORM: a failed model validator, a violated unique
  index or primary key, a violated foreign key, or a value the column cannot hold
  (\<open>integer out of range\<close>, \<open>value too long for type character varying(n)\<close>).
\<close>

datatype error =
    Error string
  | SequelizeValidationError
  | SequelizeUniqueConstraintError
  | SequelizeForeignKeyConstraintError
  | SequelizeDatabaseError

text \<open>
  What a handler answers: \<open>res.status(n).json({success: true, message})\<close>,
  \<open>res.status(n).json({success: false, message})\<close>, or \<open>next(error)\<close>.
\<close>

datatype response =
    Json nat string
  | Fail nat string
  | Next error

section \<open>The ORM calls the code uses\<close>

definition findByPk :: "('r \<Rightarrow> uuid) \<Rightarrow> uuid \<Rightarrow> 'r list \<Rightarrow> 'r option" where
  "findByPk pk k rows = find (\<lambda>r. pk r = k) rows"

definition findOne :: "('r \<Rightarrow> bool) \<Rightarrow> 'r list \<Rightarrow> 'r option" where
  "findOne wh rows = find wh rows"

text \<open>\<open>Model.update(values, {where})\<close>, \<open>increment\<close>, \<open>decrement\<close> and the
  \<open>UPDATE ... WHERE id = this.id\<close> of \<open>instance.save()\<close>: every row the clause selects
  is rewritten, the others stay.\<close>

definition update_where :: "('r \<Rightarrow> bool) \<Rightarrow> ('r \<Rightarrow> 'r) \<Rightarrow> 'r list \<Rightarrow> 'r list" where
  "update_where wh f rows = map (\<lambda>r. if wh r then f r else r) rows"

text \<open>\<open>INSERT\<close>: the primary key is unique.\<close>

definition insert_row :: "('r \<Rightarrow> uuid) \<Rightarrow> 'r \<Rightarrow> 'r list \<Rightarrow> error + 'r list" where
  "insert_row pk row rows =
     (if pk row \<in> set (map pk rows) then Inl SequelizeUniqueConstraintError
      else Inr (rows @ [row]))"

text \<open>\<open>instance.destroy()\<close>: \<open>DELETE ... WHERE id = this.id\<close> on the table itself.\<close>

definition destroy :: "('r \<Rightarrow> uuid) \<Rightarrow> uuid \<Rightarrow> 'r list \<Rightarrow> 'r list" where
  "destroy pk k rows = filter (\<lambda>r. pk r \<noteq> k) rows"

text \<open>
  The foreign keys of models/index.js are \<open>hasMany\<close> associations on columns that do
  not allow null, so they are declared \<open>ON DELETE CASCADE\<close>: deleting a request
  deletes its documents, deleting a session deletes its requests and their documents.
\<close>

definition CoordinationRequest_destroy :: "uuid \<Rightarrow> db \<Rightarrow> db" where
  "CoordinationRequest_destroy k d =
     d\<lparr>requests := destroy r_id k (requests d),
       documents := filter (\<lambda>x. requestId x \<noteq> k) (documents d)\<rparr>"

definition RegistrationSession_destroy :: "uuid \<Rightarrow> db \<Rightarrow> db" where
  "RegistrationSession_destroy k d =
     d\<lparr>sessions := destroy s_id k (sessions d),
       requests := filter (\<lambda>r. sessionId r \<noteq> k) (requests d),
       documents := filter (\<lambda>x. requestId x \<notin> set (map r_id
                      (filter (\<lambda>r. sessionId r = k) (requests d)))) (documents d)\<rparr>"

text \<open>
  \<open>sequelize.transaction()\<close>: the writes made with \<open>{transaction}\<close> are applied to
  the transaction's view of the store; \<open>commit\<close> makes the view the store,
  \<open>rollback\<close> leaves the store as it was when the transaction began.
\<close>

record tx =
  snapshot :: db
  view :: db

definition transaction :: "db \<Rightarrow> tx" where
  "transaction d = \<lparr>snapshot = d, view = d\<rparr>"

definition in_tx :: "(db \<Rightarrow> db) \<Rightarrow> tx \<Rightarrow> tx" where
  "in_tx f t = t\<lparr>view := f (view t)\<rparr>"

definition commit :: "tx \<Rightarrow> db" where
  "commit t = view t"

definition rollback :: "tx \<Rightarrow> db" where
  "rollback t = snapshot t"

section \<open>RegistrationSession (unnamed/part_004)\<close>

text \<open>The model's validators, run by \<open>create\<close> and \<open>save\<close>: \<open>endDateAfterStart\<close> and
  \<open>maxSlots: min 1\<close>.\<close>

definition session_valid :: "RegistrationSession \<Rightarrow> bool" where
  "session_valid this \<longleftrightarrow> \<not> endDate this \<le> startDate this \<and> 1 \<le> maxSlots this"

text \<open>\<open>Op.between\<close> is inclusive at both ends. In \<open>hasOverlap\<close> the instance
  always has an id (\<open>build\<close> draws the UUID default), so \<open>this.id || null\<close> is
  \<open>this.id\<close>.\<close>

definition between :: "date \<Rightarrow> date \<Rightarrow> date \<Rightarrow> bool" where
  "between x lo hi \<longleftrightarrow> lo \<le> x \<and> x \<le> hi"

definition overlap_where :: "RegistrationSession \<Rightarrow> RegistrationSession \<Rightarrow> bool" where
  "overlap_where this x \<longleftrightarrow>
     s_professorId x = s_professorId this \<and>
     s_id x \<noteq> s_id this \<and>
     (between (startDate x) (startDate this) (endDate this) \<or>
      between (endDate x) (startDate this) (endDate this) \<or>
      (startDate x \<le> startDate this \<and> endDate x \<ge> endDate this))"

definition hasOverlap :: "RegistrationSession \<Rightarrow> db \<Rightarrow> bool" where
  "hasOverlap this d \<longleftrightarrow> findOne (overlap_where this) (sessions d) \<noteq> None"

text \<open>The status \<open>updateStatus\<close> computes in its local \<open>newStatus\<close>.\<close>

definition newStatus :: "date \<Rightarrow> RegistrationSession \<Rightarrow> session_status" where
  "newStatus now this =
     (if now < startDate this then upcoming
      else if now \<ge> startDate this \<and> now \<le> endDate this then active
      else closed)"

text \<open>\<open>updateStatus\<close>: the instance and the store after the call; the row is written
  only when the status changes.\<close>

definition updateStatus :: "RegistrationSession \<Rightarrow> date \<Rightarrow> db \<Rightarrow> RegistrationSession \<times> db" where
  "updateStatus this now d =
     (if s_status this \<noteq> newStatus now this
      then (this\<lparr>s_status := newStatus now this\<rparr>,
            d\<lparr>sessions := update_where (\<lambda>x. s_id x = s_id this)
                 (\<lambda>x. x\<lparr>s_status := newStatus now this\<rparr>) (sessions d)\<rparr>)
      else (this, d))"

definition updateAllStatuses :: "date \<Rightarrow> db \<Rightarrow> db" where
  "updateAllStatuses now d =
     (let s1 = update_where
                 (\<lambda>x. s_status x = upcoming \<and> startDate x \<le> now \<and> endDate x \<ge> now)
                 (\<lambda>x. x\<lparr>s_status := active\<rparr>) (sessions d);
          s2 = update_where
                 (\<lambda>x. s_status x \<in> {upcoming, active} \<and> endDate x < now)
                 (\<lambda>x. x\<lparr>s_status := closed\<rparr>) s1
      in d\<lparr>sessions := s2\<rparr>)"

text \<open>The mapping of the specification, in its own words: \<open>now < windowStart\<close> gives
  upcoming; \<open>windowStart \<le> now \<le> windowEnd\<close> gives active; else closed.\<close>

definition spec_recomputeStatus :: "date \<Rightarrow> date \<Rightarrow> date \<Rightarrow> session_status" where
  "spec_recomputeStatus windowStart windowEnd now =
     (if now < windowStart then upcoming
      else if windowStart \<le> now \<and> now \<le> windowEnd then active
      else closed)"

text \<open>What the columns of the table hold: \<open>title\<close> is \<open>STRING(255)\<close>, \<open>maxSlots\<close>
  and \<open>availableSlots\<close> are \<open>INTEGER\<close>. A \<open>date\<close> of the model is a timestamp the
  store can hold.\<close>

definition session_columns :: "RegistrationSession \<Rightarrow> bool" where
  "session_columns row \<longleftrightarrow>
     length (title row) \<le> 255 \<and> int4 (maxSlots row) \<and> int4 (availableSlots row)"

text \<open>\<open>RegistrationSession.create\<close>: the validators, then the insertion, which the
  store refuses for a value a column cannot hold, a primary key in use, or a
  \<open>professorId\<close> that is no user. The
  \<open>beforeCreate\<close> hook fills \<open>availableSlots\<close> only when it is undefined, and
  \<open>createSession\<close> always sets it.\<close>

definition RegistrationSession_create :: "RegistrationSession \<Rightarrow> db \<Rightarrow> error + db" where
  "RegistrationSession_create row d =
     (if \<not> session_valid row then Inl SequelizeValidationError
      else if \<not> session_columns row then Inl SequelizeDatabaseError
      else case insert_row s_id row (sessions d) of
             Inl e \<Rightarrow> Inl e
           | Inr rows \<Rightarrow>
               if s_professorId row \<notin> set (map u_id (users d))
               then Inl SequelizeForeignKeyConstraintError
               else Inr (d\<lparr>sessions := rows\<rparr>))"

text \<open>\<open>session.save()\<close> in \<open>updateSession\<close>: the validators, then the fields the handler
  may have assigned are written to the row.\<close>

definition RegistrationSession_save :: "RegistrationSession \<Rightarrow> db \<Rightarrow> error + db" where
  "RegistrationSession_save this d =
     (if \<not> session_valid this then Inl SequelizeValidationError
      else if \<not> session_columns this then Inl SequelizeDatabaseError
      else Inr (d\<lparr>sessions := update_where (\<lambda>x. s_id x = s_id this)
                  (\<lambda>x. x\<lparr>title := title this, description := description this,
                         startDate := startDate this, endDate := endDate this,
                         maxSlots := maxSlots this, availableSlots := availableSlots this\<rparr>)
                  (sessions d)\<rparr>))"

section \<open>Session controller (unnamed/part_005)\<close>

record session_body =
  b_title :: string
  b_description :: "string option"
  b_startDate :: date
  b_endDate :: date
  b_maxSlots :: "int option"

text \<open>The route's \<open>sessionValidation\<close>: a title, two dates, and \<open>maxSlots\<close>, when given,
  an integer from 1.\<close>

definition sessionValidation :: "session_body \<Rightarrow> bool" where
  "sessionValidation b \<longleftrightarrow>
     b_title b \<noteq> [] \<and> (case b_maxSlots b of None \<Rightarrow> True | Some n \<Rightarrow> 1 \<le> n)"

text \<open>\<open>maxSlots || 5\<close>: a missing value and 0 are falsy.\<close>

definition maxSlots_or_5 :: "int option \<Rightarrow> int" where
  "maxSlots_or_5 m = (case m of None \<Rightarrow> 5 | Some n \<Rightarrow> if n = 0 then 5 else n)"

text \<open>\<open>createSession\<close>. \<open>tempId\<close> is the UUID \<open>build\<close> draws for the temporary
  instance, \<open>newId\<close> the one \<open>create\<close> draws for the row.\<close>

definition createSession ::
  "User \<Rightarrow> session_body \<Rightarrow> uuid \<Rightarrow> uuid \<Rightarrow> date \<Rightarrow> db \<Rightarrow> response \<times> db" where
  "createSession user b tempId newId now d =
     (if \<not> sessionValidation b then (Fail 400 ''Validation failed'', d)
      else
        let sessionData = \<lparr>s_id = tempId, s_professorId = u_id user, title = b_title b,
              description = b_description b, startDate = b_startDate b,
              endDate = b_endDate b, s_status = upcoming,
              maxSlots = maxSlots_or_5 (b_maxSlots b),
              availableSlots = maxSlots_or_5 (b_maxSlots b)\<rparr>
        in if hasOverlap sessionData d
           then (Fail 400 ''Session dates overlap with an existing session'', d)
           else
             let st = (if startDate sessionData \<le> now \<and> endDate sessionData \<ge> now then active
                       else if startDate sessionData > now then upcoming
                       else closed)
             in case RegistrationSession_create (sessionData\<lparr>s_id := newId, s_status := st\<rparr>) d of
                  Inl e \<Rightarrow> (Next e, d)
                | Inr d' \<Rightarrow> (Json 201 ''Session created successfully'', d'))"

record session_patch =
  p_title :: "string option"
  p_description :: "string option option"
  p_startDate :: "date option"
  p_endDate :: "date option"
  p_maxSlots :: "int option"

text \<open>The assignments of \<open>updateSession\<close> to the loaded instance.\<close>

definition apply_patch :: "session_patch \<Rightarrow> RegistrationSession \<Rightarrow> RegistrationSession" where
  "apply_patch p session =
     (let s1 = (case p_title p of None \<Rightarrow> session
                | Some t \<Rightarrow> if t \<noteq> [] then session\<lparr>title := t\<rparr> else session);
          s2 = (case p_description p of None \<Rightarrow> s1 | Some desc \<Rightarrow> s1\<lparr>description := desc\<rparr>);
          s3 = (case p_startDate p of None \<Rightarrow> s2 | Some sd \<Rightarrow> s2\<lparr>startDate := sd\<rparr>);
          s4 = (case p_endDate p of None \<Rightarrow> s3 | Some ed \<Rightarrow> s3\<lparr>endDate := ed\<rparr>)
      in case p_maxSlots p of
           None \<Rightarrow> s4
         | Some m \<Rightarrow>
             if m \<noteq> 0
             then let slotDifference = m - maxSlots s4
                  in s4\<lparr>maxSlots := m,
                        availableSlots := max 0 (availableSlots s4 + slotDifference)\<rparr>
             else s4)"

definition updateSession ::
  "User \<Rightarrow> uuid \<Rightarrow> session_patch \<Rightarrow> date \<Rightarrow> db \<Rightarrow> response \<times> db" where
  "updateSession user k p now d =
     (case findByPk s_id k (sessions d) of
        None \<Rightarrow> (Fail 404 ''Session not found'', d)
      | Some session \<Rightarrow>
          if s_professorId session \<noteq> u_id user
          then (Fail 403 ''You can only update your own sessions'', d)
          else
            let session' = apply_patch p session
            in if (p_startDate p \<noteq> None \<or> p_endDate p \<noteq> None) \<and> hasOverlap session' d
               then (Fail 400 ''Updated dates would overlap with an existing session'', d)
               else case RegistrationSession_save session' d of
                      Inl e \<Rightarrow> (Next e, d)
                    | Inr d1 \<Rightarrow>
                        (Json 200 ''Session updated successfully'',
                         snd (updateStatus session' now d1)))"

definition committed :: "request_status \<Rightarrow> bool" where
  "committed st \<longleftrightarrow> st \<in> {approved, document_pending, completed}"

definition deleteSession :: "User \<Rightarrow> uuid \<Rightarrow> db \<Rightarrow> response \<times> db" where
  "deleteSession user k d =
     (case findByPk s_id k (sessions d) of
        None \<Rightarrow> (Fail 404 ''Session not found'', d)
      | Some session \<Rightarrow>
          if s_professorId session \<noteq> u_id user
          then (Fail 403 ''You can only delete your own sessions'', d)
          else if list_ex (\<lambda>r. committed (r_status r))
                    (filter (\<lambda>r. sessionId r = s_id session) (requests d))
          then (Fail 400 ''Cannot delete session with approved requests'', d)
          else (Json 200 ''Session deleted successfully'',
                RegistrationSession_destroy (s_id session) d))"

text \<open>The listing handlers (\<open>getAllSessions\<close>, \<open>getActiveSessions\<close>, \<open>getMySessions\<close>)
  write the store through \<open>updateAllStatuses\<close> only; \<open>getSessionById\<close> through
  \<open>updateStatus\<close>.\<close>

definition getAllSessions :: "date \<Rightarrow> db \<Rightarrow> response \<times> db" where
  "getAllSessions now d = (Json 200 [], updateAllStatuses now d)"

definition getSessionById :: "uuid \<Rightarrow> date \<Rightarrow> db \<Rightarrow> response \<times> db" where
  "getSessionById k now d =
     (case findByPk s_id k (sessions d) of
        None \<Rightarrow> (Fail 404 ''Session not found'', d)
      | Some session \<Rightarrow> (Json 200 [], snd (updateStatus session now d)))"

section \<open>CoordinationRequest (unnamed/part_003)\<close>

text \<open>\<open>canBeApproved\<close>: \<open>None\<close> stands for \<open>{canApprove: true}\<close>, \<open>Some reason\<close> for
  \<open>{canApprove: false, reason}\<close>.\<close>

definition canBeApproved :: "CoordinationRequest \<Rightarrow> db \<Rightarrow> string option" where
  "canBeApproved this d =
     (case findByPk u_id (studentId this) (users d) of
        None \<Rightarrow> Some ''Student not found''
      | Some student \<Rightarrow>
          (case approvedProfessorId student of
             Some pid \<Rightarrow>
               Some (''Student already approved by '' @
                 (case findByPk u_id pid (users d) of
                    None \<Rightarrow> ''another professor''
                  | Some approvedProfessor \<Rightarrow>
                      if u_name approvedProfessor \<noteq> [] then u_name approvedProfessor
                      else ''another professor''))
           | None \<Rightarrow>
               (case findByPk u_id (r_professorId this) (users d) of
                  None \<Rightarrow> Some ''Professor not found''
                | Some professor \<Rightarrow>
                    if currentStudentCount professor \<ge> maxStudents professor
                    then Some ''Professor has reached maximum student capacity''
                    else None)))"

text \<open>
  The \<open>try\<close> block of \<open>approve\<close>: the five writes, in the order of the source, on the
  transaction's view. \<open>increment\<close> and \<open>decrement\<close> are refused by the store when the
  new value leaves the \<open>INTEGER\<close> range; the block then throws with the writes made so
  far still in the view. (The foreign key of \<open>approvedProfessorId\<close> holds: the guard
  found the professor's row, and no handler deletes a user.) \<open>Inl (e, t)\<close> is a throw of
  \<open>e\<close> with the transaction as it stands, \<open>Inr t\<close> the end of the block.
\<close>

definition approve_try :: "CoordinationRequest \<Rightarrow> tx \<Rightarrow> error \<times> tx + tx" where
  "approve_try this t0 =
     (let t1 = in_tx (\<lambda>v. v\<lparr>requests := update_where (\<lambda>r. r_id r = r_id this)
                            (\<lambda>r. r\<lparr>r_status := approved\<rparr>) (requests v)\<rparr>) t0;
          t2 = in_tx (\<lambda>v. v\<lparr>users := update_where (\<lambda>u. u_id u = studentId this)
                            (\<lambda>u. u\<lparr>approvedProfessorId := Some (r_professorId this)\<rparr>)
                            (users v)\<rparr>) t1
      in if list_ex (\<lambda>u. u_id u = r_professorId this \<and> \<not> int4 (currentStudentCount u + 1))
              (users (view t2))
         then Inl (SequelizeDatabaseError, t2)
         else
           let t3 = in_tx (\<lambda>v. v\<lparr>users := update_where (\<lambda>u. u_id u = r_professorId this)
                                 (\<lambda>u. u\<lparr>currentStudentCount := currentStudentCount u + 1\<rparr>)
                                 (users v)\<rparr>) t2
           in if list_ex (\<lambda>s. s_id s = sessionId this \<and> \<not> int4 (availableSlots s - 1))
                   (sessions (view t3))
              then Inl (SequelizeDatabaseError, t3)
              else
                let t4 = in_tx (\<lambda>v. v\<lparr>sessions := update_where (\<lambda>s. s_id s = sessionId this)
                                      (\<lambda>s. s\<lparr>availableSlots := availableSlots s - 1\<rparr>)
                                      (sessions v)\<rparr>) t3;
                    t5 = in_tx (\<lambda>v. v\<lparr>requests := update_where
                                      (\<lambda>r. studentId r = studentId this \<and> r_id r \<noteq> r_id this \<and>
                                           r_status r = pending)
                                      (\<lambda>r. r\<lparr>r_status := rejected,
                                             r_rejectionReason :=
                                               Some (utf16
                                                 ''Student was approved by another professor'')\<rparr>)
                                      (requests v)\<rparr>) t4
                in Inr t5)"

text \<open>
  The transaction of \<open>approve\<close>: \<open>try { ...; commit } catch { rollback; throw }\<close>. The
  result is what the call throws (\<open>None\<close> when it returns) and the store it leaves.
\<close>

definition approve_transaction :: "CoordinationRequest \<Rightarrow> db \<Rightarrow> error option \<times> db" where
  "approve_transaction this d =
     (case approve_try this (transaction d) of
        Inr t \<Rightarrow> (None, commit t)
      | Inl (e, t) \<Rightarrow> (Some e, rollback t))"

text \<open>\<open>approve\<close>: the guard is read first, outside the transaction, and throws before
  the transaction opens.\<close>

definition approve :: "CoordinationRequest \<Rightarrow> db \<Rightarrow> error option \<times> db" where
  "approve this d =
     (case canBeApproved this d of
        Some reason \<Rightarrow> (Some (Error reason), d)
      | None \<Rightarrow> approve_transaction this d)"

text \<open>
  Two calls of \<open>approve\<close> by handlers that overlap. Every \<open>await\<close> yields to the other
  handler, and the guard is not part of the transaction, so both guards can read the
  store before either transaction begins: guard of \<open>a\<close>, guard of \<open>b\<close>, transaction
  of \<open>a\<close>, transaction of \<open>b\<close>. The result is what each call throws and the store
  they leave.
\<close>

definition approve_overlapping ::
  "CoordinationRequest \<Rightarrow> CoordinationRequest \<Rightarrow> db \<Rightarrow> error option \<times> error option \<times> db" where
  "approve_overlapping a b d =
     (let guard_a = canBeApproved a d;
          guard_b = canBeApproved b d;
          (thrown_a, d1) = (case guard_a of
                              Some reason \<Rightarrow> (Some (Error reason), d)
                            | None \<Rightarrow> approve_transaction a d);
          (thrown_b, d2) = (case guard_b of
                              Some reason \<Rightarrow> (Some (Error reason), d1)
                            | None \<Rightarrow> approve_transaction b d1)
      in (thrown_a, thrown_b, d2))"

definition reject :: "CoordinationRequest \<Rightarrow> js_string \<Rightarrow> db \<Rightarrow> db" where
  "reject this reason d =
     d\<lparr>requests := update_where (\<lambda>r. r_id r = r_id this)
          (\<lambda>r. r\<lparr>r_status := rejected, r_rejectionReason := Some reason\<rparr>) (requests d)\<rparr>"

section \<open>Request controller (backend/controllers/request.controller.js)\<close>

text \<open>
  A handler is a function from the store to its answer and the store it leaves. The
  \<open>reload\<close> calls and the notification e-mails after the writes are reads and
  fire-and-forget calls; they are not part of the model.
\<close>

record request_body =
  b_sessionId :: uuid
  b_dissertationTopic :: string
  b_message :: "string option"

text \<open>The route's \<open>createRequestValidation\<close>.\<close>

definition createRequestValidation :: "request_body \<Rightarrow> bool" where
  "createRequestValidation b \<longleftrightarrow>
     10 \<le> length (b_dissertationTopic b) \<and> length (b_dissertationTopic b) \<le> 500 \<and>
     (case b_message b of None \<Rightarrow> True | Some m \<Rightarrow> length m \<le> 2000)"

text \<open>\<open>CoordinationRequest.create\<close>: \<open>dissertationTopic\<close> is \<open>STRING(500)\<close>; the
  primary key and the unique index on \<open>(student_id, session_id)\<close>; the foreign keys to
  the student, the professor and the session.\<close>

definition CoordinationRequest_create :: "CoordinationRequest \<Rightarrow> db \<Rightarrow> error + db" where
  "CoordinationRequest_create row d =
     (if \<not> length (dissertationTopic row) \<le> 500 then Inl SequelizeDatabaseError
      else if list_ex (\<lambda>r. studentId r = studentId row \<and> sessionId r = sessionId row) (requests d)
      then Inl SequelizeUniqueConstraintError
      else case insert_row r_id row (requests d) of
             Inl e \<Rightarrow> Inl e
           | Inr rows \<Rightarrow>
               if studentId row \<notin> set (map u_id (users d)) \<or>
                  r_professorId row \<notin> set (map u_id (users d)) \<or>
                  sessionId row \<notin> set (map s_id (sessions d))
               then Inl SequelizeForeignKeyConstraintError
               else Inr (d\<lparr>requests := rows\<rparr>))"

definition createRequest ::
  "User \<Rightarrow> request_body \<Rightarrow> uuid \<Rightarrow> date \<Rightarrow> db \<Rightarrow> response \<times> db" where
  "createRequest user b newId now d =
     (if \<not> createRequestValidation b then (Fail 400 ''Validation failed'', d)
      else if approvedProfessorId user \<noteq> None
      then (Fail 400 ''You have already been approved by a professor'', d)
      else case findByPk s_id (b_sessionId b) (sessions d) of
             None \<Rightarrow> (Fail 404 ''Session not found'', d)
           | Some session0 \<Rightarrow>
               let (session, d1) = updateStatus session0 now d
               in if s_status session \<noteq> active
                  then (Fail 400 ''This session is not currently accepting requests'', d1)
                  else if availableSlots session \<le> 0
                  then (Fail 400 ''This session has no available slots'', d1)
                  else if findOne (\<lambda>r. studentId r = u_id user \<and> sessionId r = b_sessionId b)
                            (requests d1) \<noteq> None
                  then (Fail 400 ''You have already submitted a request for this session'', d1)
                  else case CoordinationRequest_create
                              \<lparr>r_id = newId, studentId = u_id user,
                               r_professorId = s_professorId session,
                               sessionId = b_sessionId b,
                               dissertationTopic = b_dissertationTopic b,
                               message = b_message b, r_status = pending,
                               r_rejectionReason = None\<rparr> d1 of
                         Inl e \<Rightarrow> (Next e, d1)
                       | Inr d2 \<Rightarrow> (Json 201 ''Request submitted successfully'', d2))"

definition approveRequest :: "User \<Rightarrow> uuid \<Rightarrow> db \<Rightarrow> response \<times> db" where
  "approveRequest user k d =
     (case findByPk r_id k (requests d) of
        None \<Rightarrow> (Fail 404 ''Request not found'', d)
      | Some request \<Rightarrow>
          if r_professorId request \<noteq> u_id user
          then (Fail 403 ''You can only approve requests made to you'', d)
          else if r_status request \<noteq> pending
          then (Fail 400 ''Only pending requests can be approved'', d)
          else case approve request d of
                 (Some e, d') \<Rightarrow> (Next e, d')
               | (None, d') \<Rightarrow> (Json 200 ''Request approved successfully'', d'))"

text \<open>\<open>String.prototype.trim\<close> removes the white space and the line terminators of
  ECMAScript at both ends: TAB, LF, VT, FF, CR, SP, NBSP, the other space separators
  of Unicode (U+1680, U+2000 to U+200A, U+202F, U+205F, U+3000), LS, PS and the byte
  order mark; each is one UTF-16 code unit.\<close>

definition is_space :: "nat \<Rightarrow> bool" where
  "is_space c \<longleftrightarrow>
     c \<in> set [0x0009, 0x000A, 0x000B, 0x000C, 0x000D, 0x0020, 0x00A0, 0x1680,
              0x2000, 0x2001, 0x2002, 0x2003, 0x2004, 0x2005, 0x2006, 0x2007, 0x2008,
              0x2009, 0x200A, 0x2028, 0x2029, 0x202F, 0x205F, 0x3000, 0xFEFF]"

definition trim :: "js_string \<Rightarrow> js_string" where
  "trim s = rev (dropWhile is_space (rev (dropWhile is_space s)))"

text \<open>\<open>!reason || reason.trim().length === 0\<close>\<close>

definition reason_missing :: "js_string option \<Rightarrow> bool" where
  "reason_missing reason \<longleftrightarrow>
     (case reason of None \<Rightarrow> True | Some r \<Rightarrow> r = [] \<or> length (trim r) = 0)"

definition rejectRequest :: "User \<Rightarrow> uuid \<Rightarrow> js_string option \<Rightarrow> db \<Rightarrow> response \<times> db" where
  "rejectRequest user k reason d =
     (if reason_missing reason then (Fail 400 ''Rejection reason is required'', d)
      else case findByPk r_id k (requests d) of
             None \<Rightarrow> (Fail 404 ''Request not found'', d)
           | Some request \<Rightarrow>
               if r_professorId request \<noteq> u_id user
               then (Fail 403 ''You can only reject requests made to you'', d)
               else if r_status request \<noteq> pending
               then (Fail 400 ''Only pending requests can be rejected'', d)
               else (Json 200 ''Request rejected'', reject request (the reason) d))"

definition cancelRequest :: "User \<Rightarrow> uuid \<Rightarrow> db \<Rightarrow> response \<times> db" where
  "cancelRequest user k d =
     (case findByPk r_id k (requests d) of
        None \<Rightarrow> (Fail 404 ''Request not found'', d)
      | Some request \<Rightarrow>
          if studentId request \<noteq> u_id user
          then (Fail 403 ''You can only cancel your own requests'', d)
          else if r_status request \<noteq> pending
          then (Fail 400 ''Only pending requests can be cancelled'', d)
          else (Json 200 ''Request cancelled successfully'',
                CoordinationRequest_destroy (r_id request) d))"

section \<open>Document (unnamed/part_002)\<close>

text \<open>\<open>Document.prototype.accept\<close> and \<open>Document.prototype.reject\<close> (here
  \<open>reject_document\<close>, the name \<open>reject\<close> being the request's): two writes in one
  transaction, then \<open>commit\<close>. Both writes set a status of the enumeration (and the
  reason, a \<open>TEXT\<close>), which the store never refuses, so the \<open>catch\<close> block has no
  throw to handle.\<close>

definition accept :: "Document \<Rightarrow> db \<Rightarrow> db" where
  "accept this d =
     commit
       (in_tx (\<lambda>v. v\<lparr>requests := update_where (\<lambda>r. r_id r = requestId this)
                        (\<lambda>r. r\<lparr>r_status := completed\<rparr>) (requests v)\<rparr>)
          (in_tx (\<lambda>v. v\<lparr>documents := update_where (\<lambda>x. d_id x = d_id this)
                           (\<lambda>x. x\<lparr>d_status := accepted\<rparr>) (documents v)\<rparr>)
             (transaction d)))"

definition reject_document :: "Document \<Rightarrow> js_string \<Rightarrow> db \<Rightarrow> db" where
  "reject_document this reason d =
     commit
       (in_tx (\<lambda>v. v\<lparr>requests := update_where (\<lambda>r. r_id r = requestId this)
                        (\<lambda>r. r\<lparr>r_status := approved\<rparr>) (requests v)\<rparr>)
          (in_tx (\<lambda>v. v\<lparr>documents := update_where (\<lambda>x. d_id x = d_id this)
                           (\<lambda>x. x\<lparr>d_status := doc_rejected,
                                  d_rejectionReason := Some reason\<rparr>) (documents v)\<rparr>)
             (transaction d)))"

text \<open>\<open>Document.create\<close>: \<open>fileName\<close> and \<open>originalName\<close> are \<open>STRING(255)\<close>,
  \<open>mimeType\<close> is \<open>STRING(100)\<close>, \<open>filePath\<close> is \<open>STRING(500)\<close>, \<open>fileSize\<close> is
  \<open>INTEGER\<close>; the primary key; the foreign keys to the request and the uploader.\<close>

definition upload_columns :: "upload \<Rightarrow> bool" where
  "upload_columns f \<longleftrightarrow>
     length (fileName f) \<le> 255 \<and> length (originalName f) \<le> 255 \<and>
     length (mimeType f) \<le> 100 \<and> int4 (fileSize f) \<and> length (filePath f) \<le> 500"

definition Document_create :: "Document \<Rightarrow> db \<Rightarrow> error + db" where
  "Document_create row d =
     (if \<not> upload_columns (d_file row) then Inl SequelizeDatabaseError
      else case insert_row d_id row (documents d) of
             Inl e \<Rightarrow> Inl e
           | Inr rows \<Rightarrow>
               if requestId row \<notin> set (map r_id (requests d)) \<or>
                  uploadedBy row \<notin> set (map u_id (users d))
               then Inl SequelizeForeignKeyConstraintError
               else Inr (d\<lparr>documents := rows\<rparr>))"

section \<open>Document controller (backend/controllers/document.controller.js)\<close>

text \<open>
  A handler reads the request of a document through the association; a document whose
  request is gone makes \<open>document.request.professorId\<close> throw a \<open>TypeError\<close>. The
  notification calls after the writes are fire-and-forget and are not part of the model.
\<close>

definition typeError :: error where
  "typeError = Error ''Cannot read properties of null''"

definition uploadDocument ::
  "User \<Rightarrow> upload option \<Rightarrow> uuid \<Rightarrow> uuid \<Rightarrow> db \<Rightarrow> response \<times> db" where
  "uploadDocument user file k newId d =
     (case file of
        None \<Rightarrow> (Fail 400 ''No file uploaded'', d)
      | Some f \<Rightarrow>
          (case findByPk r_id k (requests d) of
             None \<Rightarrow> (Fail 404 ''Coordination request not found'', d)
           | Some request \<Rightarrow>
               let isStudent = (studentId request = u_id user);
                   isProfessor = (r_professorId request = u_id user)
               in if \<not> isStudent \<and> \<not> isProfessor
                  then (Fail 403 ''You are not authorized to upload documents for this request'', d)
                  else if isStudent \<and> r_status request \<noteq> approved
                  then (Fail 400 ''You can only upload documents for approved requests'', d)
                  else if isProfessor \<and> r_status request \<notin> set [document_pending]
                  then (Fail 400
                          ''You can only upload documents when reviewing student documents'', d)
                  else case Document_create
                              \<lparr>d_id = newId, requestId = k, uploadedBy = u_id user,
                               uploaderRole = u_role user, d_file = f,
                               d_status = pending_review, d_rejectionReason = None\<rparr> d of
                         Inl e \<Rightarrow> (Next e, d)
                       | Inr d1 \<Rightarrow>
                           (Json 201 ''Document uploaded successfully'',
                            if isStudent
                            then d1\<lparr>requests := update_where (\<lambda>r. r_id r = r_id request)
                                     (\<lambda>r. r\<lparr>r_status := document_pending\<rparr>) (requests d1)\<rparr>
                            else d1)))"

definition acceptDocument :: "User \<Rightarrow> uuid \<Rightarrow> db \<Rightarrow> response \<times> db" where
  "acceptDocument user k d =
     (case findByPk d_id k (documents d) of
        None \<Rightarrow> (Fail 404 ''Document not found'', d)
      | Some document \<Rightarrow>
          (case findByPk r_id (requestId document) (requests d) of
             None \<Rightarrow> (Next typeError, d)
           | Some request \<Rightarrow>
               if r_professorId request \<noteq> u_id user
               then (Fail 403 ''Only the assigned professor can accept documents'', d)
               else if d_status document \<noteq> pending_review
               then (Fail 400 ''Only pending documents can be accepted'', d)
               else (Json 200 ''Document accepted. Coordination request completed.'',
                     accept document d)))"

definition rejectDocument :: "User \<Rightarrow> uuid \<Rightarrow> js_string option \<Rightarrow> db \<Rightarrow> response \<times> db" where
  "rejectDocument user k reason d =
     (if reason_missing reason then (Fail 400 ''Rejection reason is required'', d)
      else case findByPk d_id k (documents d) of
             None \<Rightarrow> (Fail 404 ''Document not found'', d)
           | Some document \<Rightarrow>
               (case findByPk r_id (requestId document) (requests d) of
                  None \<Rightarrow> (Next typeError, d)
                | Some request \<Rightarrow>
                    if r_professorId request \<noteq> u_id user
                    then (Fail 403 ''Only the assigned professor can reject documents'', d)
                    else if d_status document \<noteq> pending_review
                    then (Fail 400 ''Only pending documents can be rejected'', d)
                    else (Json 200 ''Document rejected. Student must upload a new document.'',
                          reject_document document (the reason) d)))"

section \<open>Sequences of operations\<close>

text \<open>Handlers that run one at a time. One constructor per handler that writes the
  store, with the authenticated user
  (\<open>req.user\<close>), the request's parameters, the UUIDs the call draws and the clock it
  reads.\<close>

datatype op =
    CreateSession User session_body uuid uuid date
  | UpdateSession User uuid session_patch date
  | DeleteSession User uuid
  | GetAllSessions date
  | GetSessionById uuid date
  | CreateRequest User request_body uuid date
  | ApproveRequest User uuid
  | RejectRequest User uuid "js_string option"
  | CancelRequest User uuid
  | UploadDocument User "upload option" uuid uuid
  | AcceptDocument User uuid
  | RejectDocument User uuid "js_string option"

fun handle :: "op \<Rightarrow> db \<Rightarrow> response \<times> db" where
  "handle (CreateSession user b tempId newId now) d = createSession user b tempId newId now d"
| "handle (UpdateSession user k p now) d = updateSession user k p now d"
| "handle (DeleteSession user k) d = deleteSession user k d"
| "handle (GetAllSessions now) d = getAllSessions now d"
| "handle (GetSessionById k now) d = getSessionById k now d"
| "handle (CreateRequest user b newId now) d = createRequest user b newId now d"
| "handle (ApproveRequest user k) d = approveRequest user k d"
| "handle (RejectRequest user k reason) d = rejectRequest user k reason d"
| "handle (CancelRequest user k) d = cancelRequest user k d"
| "handle (UploadDocument user file k newId) d = uploadDocument user file k newId d"
| "handle (AcceptDocument user k) d = acceptDocument user k d"
| "handle (RejectDocument user k reason) d = rejectDocument user k reason d"

fun run :: "op list \<Rightarrow> db \<Rightarrow> db" where
  "run [] d = d"
| "run (x # xs) d = run xs (snd (handle x d))"

section \<open>Notions and concrete states the properties are stated with\<close>

text \<open>Concrete users, requests and stores for the closed instances below. A sponsor with
  capacity 1 (\<open>ex_prof\<close>) or 5 (\<open>ex_prof5\<close>, the same user id), two applicants.\<close>

definition ex_prof :: User where
  "ex_prof = \<lparr>u_id = 1, u_name = ''Ada'', u_role = role_professor,
     approvedProfessorId = None, maxStudents = 1, currentStudentCount = 0\<rparr>"

definition ex_prof5 :: User where
  "ex_prof5 = \<lparr>u_id = 1, u_name = ''Ada'', u_role = role_professor,
     approvedProfessorId = None, maxStudents = 5, currentStudentCount = 0\<rparr>"

definition ex_studA :: User where
  "ex_studA = \<lparr>u_id = 2, u_name = ''Bob'', u_role = role_student,
     approvedProfessorId = None, maxStudents = 5, currentStudentCount = 0\<rparr>"

definition ex_studB :: User where
  "ex_studB = \<lparr>u_id = 3, u_name = ''Cy'', u_role = role_student,
     approvedProfessorId = None, maxStudents = 5, currentStudentCount = 0\<rparr>"

definition ex_body :: session_body where
  "ex_body = \<lparr>b_title = ''Spring'', b_description = None, b_startDate = 0, b_endDate = 100,
     b_maxSlots = Some 1\<rparr>"

definition ex_req :: request_body where
  "ex_req = \<lparr>b_sessionId = 10, b_dissertationTopic = ''Type theory'', b_message = None\<rparr>"

definition ex_users :: "User \<Rightarrow> db" where
  "ex_users p = \<lparr>users = [p, ex_studA, ex_studB], sessions = [], requests = [], documents = []\<rparr>"

text \<open>One session with a single slot, open from 0 to 100; at time 50 both applicants
  submit a request to it (requests 20 and 21).\<close>

definition ex_two_pending :: "User \<Rightarrow> db" where
  "ex_two_pending p = run [CreateSession p ex_body 9 10 50,
      CreateRequest ex_studA ex_req 20 50, CreateRequest ex_studB ex_req 21 50] (ex_users p)"

definition ex_profQ :: User where
  "ex_profQ = \<lparr>u_id = 4, u_name = ''Eve'', u_role = role_professor,
     approvedProfessorId = None, maxStudents = 5, currentStudentCount = 0\<rparr>"

definition ex_reqQ :: request_body where
  "ex_reqQ = \<lparr>b_sessionId = 11, b_dissertationTopic = ''Proof search'', b_message = None\<rparr>"

text \<open>Two sessions of two professors; applicant A asks both, applicant B the first.\<close>

definition ex_cascade :: db where
  "ex_cascade = run [CreateSession ex_prof5 ex_body 9 10 50,
      CreateSession ex_profQ ex_body 9 11 50,
      CreateRequest ex_studA ex_req 20 50, CreateRequest ex_studB ex_req 21 50,
      CreateRequest ex_studA ex_reqQ 22 50]
     \<lparr>users = [ex_prof5, ex_studA, ex_studB, ex_profQ], sessions = [], requests = [],
      documents = []\<rparr>"

text \<open>The store of \<open>ex_two_pending\<close> where applicant A already has sponsor 4.\<close>

definition ex_committed :: db where
  "ex_committed = (ex_two_pending ex_prof)
      \<lparr>users := [ex_prof, ex_studA\<lparr>approvedProfessorId := Some 4\<rparr>, ex_studB, ex_profQ]\<rparr>"

text \<open>A session stored as closed although its window is from 0 to 100, and the same
  session stored as upcoming.\<close>

definition ex_closed_session :: RegistrationSession where
  "ex_closed_session = \<lparr>s_id = 10, s_professorId = 1, title = ''Spring'', description = None,
     startDate = 0, endDate = 100, s_status = closed, maxSlots = 5, availableSlots = 5\<rparr>"

definition ex_closed_db :: db where
  "ex_closed_db = \<lparr>users = [ex_prof], sessions = [ex_closed_session], requests = [],
     documents = []\<rparr>"

definition ex_upcoming_db :: db where
  "ex_upcoming_db = \<lparr>users = [ex_prof], sessions = [ex_closed_session\<lparr>s_status := upcoming\<rparr>],
     requests = [], documents = []\<rparr>"

definition ex_one_session :: db where
  "ex_one_session = run [CreateSession ex_prof ex_body 9 10 50] (ex_users ex_prof)"

definition ex_file :: upload where
  "ex_file = \<lparr>fileName = ''a.pdf'', originalName = ''a.pdf'', mimeType = ''application/pdf'',
     fileSize = 10, filePath = ''uploads/a.pdf''\<rparr>"

text \<open>The request is approved, the applicant uploads document 30, the sponsor uploads the
  counter-document 31, the sponsor rejects document 30.\<close>

definition ex_document_pending :: db where
  "ex_document_pending = run [CreateSession ex_prof ex_body 9 10 50,
      CreateRequest ex_studA ex_req 20 50, ApproveRequest ex_prof 20,
      UploadDocument ex_studA (Some ex_file) 20 30] (ex_users ex_prof)"

definition ex_counter_document :: db where
  "ex_counter_document = run [UploadDocument ex_prof (Some ex_file) 20 31,
      RejectDocument ex_prof 30 (Some (utf16 ''unsigned''))] ex_document_pending"

text \<open>The store of \<open>ex_one_session\<close> with a second professor on record.\<close>

definition ex_two_professors :: db where
  "ex_two_professors = run [CreateSession ex_prof ex_body 9 10 50]
     \<lparr>users = [ex_prof, ex_studA, ex_studB, ex_profQ], sessions = [], requests = [],
      documents = []\<rparr>"

text \<open>The instances of requests 20, 21 and 22 as \<open>findByPk\<close> loads them while they are
  pending.\<close>

definition ex_request20 :: CoordinationRequest where
  "ex_request20 = \<lparr>r_id = 20, studentId = 2, r_professorId = 1, sessionId = 10,
     dissertationTopic = ''Type theory'', message = None, r_status = pending,
     r_rejectionReason = None\<rparr>"

definition ex_request21 :: CoordinationRequest where
  "ex_request21 = \<lparr>r_id = 21, studentId = 3, r_professorId = 1, sessionId = 10,
     dissertationTopic = ''Type theory'', message = None, r_status = pending,
     r_rejectionReason = None\<rparr>"

definition ex_request22 :: CoordinationRequest where
  "ex_request22 = \<lparr>r_id = 22, studentId = 2, r_professorId = 4, sessionId = 11,
     dissertationTopic = ''Proof search'', message = None, r_status = pending,
     r_rejectionReason = None\<rparr>"

text \<open>The store of \<open>ex_two_pending\<close> with the session's \<open>availableSlots\<close> at the
  lower end of the \<open>INTEGER\<close> range.\<close>

definition ex_slots_floor :: db where
  "ex_slots_floor = (ex_two_pending ex_prof5)
     \<lparr>sessions := [\<lparr>s_id = 10, s_professorId = 1, title = ''Spring'', description = None,
        startDate = 0, endDate = 100, s_status = active, maxSlots = 1,
        availableSlots = - 2147483648\<rparr>]\<rparr>"

text \<open>A window that starts at the instant the existing one ends, one that starts
  after it, and the latter asking for more slots than an \<open>INTEGER\<close> holds.\<close>

definition ex_touching :: session_body where
  "ex_touching = \<lparr>b_title = ''Summer'', b_description = None, b_startDate = 100,
     b_endDate = 200, b_maxSlots = None\<rparr>"

definition ex_after :: session_body where
  "ex_after = \<lparr>b_title = ''Autumn'', b_description = None, b_startDate = 101,
     b_endDate = 200, b_maxSlots = None\<rparr>"

definition ex_too_many_slots :: session_body where
  "ex_too_many_slots = \<lparr>b_title = ''Autumn'', b_description = None, b_startDate = 101,
     b_endDate = 200, b_maxSlots = Some 2147483648\<rparr>"

text \<open>Two closed intervals share an instant.\<close>

definition windows_intersect :: "date \<Rightarrow> date \<Rightarrow> date \<Rightarrow> date \<Rightarrow> bool" where
  "windows_intersect s1 e1 s2 e2 \<longleftrightarrow> max s1 s2 \<le> min e1 e2"

text \<open>The store refuses one of the two counter writes of \<open>approve\<close>.\<close>

definition counter_refused :: "CoordinationRequest \<Rightarrow> db \<Rightarrow> bool" where
  "counter_refused this d \<longleftrightarrow>
     list_ex (\<lambda>u. u_id u = r_professorId this \<and> \<not> int4 (currentStudentCount u + 1)) (users d) \<or>
     list_ex (\<lambda>s. s_id s = sessionId this \<and> \<not> int4 (availableSlots s - 1)) (sessions d)"

text \<open>The primary key of the users table.\<close>

definition users_pk :: "db \<Rightarrow> bool" where
  "users_pk d \<longleftrightarrow> distinct (map u_id (users d))"

text \<open>\<open>0 \<le> currentStudentCount \<le> maxStudents\<close> for every user.\<close>

definition within_capacity :: "db \<Rightarrow> bool" where
  "within_capacity d \<longleftrightarrow>
     (\<forall>u\<in>set (users d). 0 \<le> currentStudentCount u \<and> currentStudentCount u \<le> maxStudents u)"

fun is_approve :: "op \<Rightarrow> bool" where
  "is_approve (ApproveRequest user k) = True"
| "is_approve _ = False"

text \<open>
  The invariant behind "one accepted sponsor per applicant": request ids are unique;
  the applicant of a committed request (approved, \<open>document_pending\<close> or completed)
  has an accepted sponsor on record; two committed requests of one applicant are the same
  request; every document belongs to a committed request.
\<close>

definition one_sponsor_rows ::
  "User list \<Rightarrow> CoordinationRequest list \<Rightarrow> Document list \<Rightarrow> bool" where
  "one_sponsor_rows us rs ds \<longleftrightarrow>
     distinct (map r_id rs) \<and>
     (\<forall>r\<in>set rs. committed (r_status r) \<longrightarrow>
        (case findByPk u_id (studentId r) us of
           None \<Rightarrow> False
         | Some st \<Rightarrow> approvedProfessorId st \<noteq> None)) \<and>
     (\<forall>r1\<in>set rs. \<forall>r2\<in>set rs.
        committed (r_status r1) \<and> committed (r_status r2) \<and> studentId r1 = studentId r2 \<longrightarrow>
        r_id r1 = r_id r2) \<and>
     (\<forall>doc\<in>set ds. \<exists>r\<in>set rs. r_id r = requestId doc \<and> committed (r_status r))"

definition one_sponsor :: "db \<Rightarrow> bool" where
  "one_sponsor d \<longleftrightarrow> one_sponsor_rows (users d) (requests d) (documents d)"

text \<open>The committed requests of applicant \<open>a\<close>.\<close>

definition committed_of :: "uuid \<Rightarrow> db \<Rightarrow> CoordinationRequest list" where
  "committed_of a d = filter (\<lambda>r. studentId r = a \<and> committed (r_status r)) (requests d)"

text \<open>The requests that hold a commitment, by id, in table order.\<close>

definition committed_ids :: "db \<Rightarrow> uuid list" where
  "committed_ids d = map r_id (filter (\<lambda>r. committed (r_status r)) (requests d))"

section \<open>Properties\<close>

subsection \<open>The ORM calls\<close>

lemma find_map_pk:
  assumes "\<And>r. pk (g r) = pk r"
  shows "find (\<lambda>r. pk r = k) (map g rows) = map_option g (find (\<lambda>r. pk r = k) rows)"
  using assms by (induction rows) auto

lemma findByPk_update_where:
  assumes "\<And>r. pk (f r) = pk r"
  shows "findByPk pk k (update_where wh f rows) =
         map_option (\<lambda>r. if wh r then f r else r) (findByPk pk k rows)"
  unfolding findByPk_def update_where_def
  by (rule find_map_pk) (simp add: assms)

lemma findByPk_append:
  "findByPk pk k (rows @ [row]) =
     (case findByPk pk k rows of Some r \<Rightarrow> Some r
      | None \<Rightarrow> if pk row = k then Some row else None)"
  unfolding findByPk_def by (induction rows) auto

lemma findByPk_Some_D: "findByPk pk k rows = Some r \<Longrightarrow> r \<in> set rows \<and> pk r = k"
  unfolding findByPk_def by (auto simp: find_Some_iff)

lemma findByPk_None_iff: "findByPk pk k rows = None \<longleftrightarrow> k \<notin> pk ` set rows"
  unfolding findByPk_def by (auto simp: find_None_iff)

subsection \<open>The session model\<close>

lemma sessions_updateAllStatuses:
  "sessions (updateAllStatuses now d) =
     map (\<lambda>x. if s_status x = upcoming \<and> startDate x \<le> now \<and> now \<le> endDate x
               then x\<lparr>s_status := active\<rparr>
               else if s_status x \<in> {upcoming, active} \<and> endDate x < now
               then x\<lparr>s_status := closed\<rparr> else x) (sessions d)"
  by (auto simp: updateAllStatuses_def update_where_def Let_def)

lemma newStatus_spec: "newStatus now x = spec_recomputeStatus (startDate x) (endDate x) now"
  by (simp add: newStatus_def spec_recomputeStatus_def)

lemma fst_updateStatus: "fst (updateStatus x now d) = x\<lparr>s_status := newStatus now x\<rparr>"
  by (simp add: updateStatus_def)

subsection \<open>The concrete states, evaluated\<close>

lemmas ex_defs = ex_prof_def ex_prof5_def ex_studA_def ex_studB_def ex_body_def ex_req_def ex_users_def ex_two_pending_def

lemmas ex_defs2 = ex_defs ex_profQ_def ex_reqQ_def ex_cascade_def ex_committed_def
  ex_closed_session_def ex_closed_db_def ex_upcoming_db_def ex_one_session_def ex_file_def
  ex_document_pending_def ex_counter_document_def

lemmas code_defs = createSession_def createRequest_def approveRequest_def approve_def canBeApproved_def
     approve_transaction_def approve_try_def transaction_def in_tx_def commit_def rollback_def int4_def
     session_columns_def Document_create_def upload_columns_def utf16_def approve_overlapping_def
     sessionValidation_def createRequestValidation_def maxSlots_or_5_def hasOverlap_def findOne_def findByPk_def
     RegistrationSession_create_def session_valid_def insert_row_def updateStatus_def newStatus_def
      CoordinationRequest_create_def update_where_def Let_def overlap_where_def between_def
    uploadDocument_def acceptDocument_def rejectDocument_def accept_def reject_document_def
    reason_missing_def trim_def is_space_def updateAllStatuses_def spec_recomputeStatus_def

lemma ex_two_pending_eval: "ex_two_pending p =
  \<lparr>users = [p, ex_studA, ex_studB],
   sessions = [\<lparr>s_id = 10, s_professorId = u_id p, title = ''Spring'', description = None,
       startDate = 0, endDate = 100, s_status = active, maxSlots = 1, availableSlots = 1\<rparr>],
   requests = [\<lparr>r_id = 20, studentId = 2, r_professorId = u_id p, sessionId = 10,
          dissertationTopic = ''Type theory'', message = None,
          r_status = pending, r_rejectionReason = None\<rparr>,
       \<lparr>r_id = 21, studentId = 3, r_professorId = u_id p, sessionId = 10,
          dissertationTopic = ''Type theory'', message = None,
          r_status = pending, r_rejectionReason = None\<rparr>],
   documents = []\<rparr>"
  by (simp add: ex_defs code_defs)

lemma ex_cascade_eval: "ex_cascade =
  \<lparr>users = [ex_prof5, ex_studA, ex_studB, ex_profQ],
   sessions = [\<lparr>s_id = 10, s_professorId = 1, title = ''Spring'', description = None,
       startDate = 0, endDate = 100, s_status = active, maxSlots = 1, availableSlots = 1\<rparr>,
     \<lparr>s_id = 11, s_professorId = 4, title = ''Spring'', description = None,
       startDate = 0, endDate = 100, s_status = active, maxSlots = 1, availableSlots = 1\<rparr>],
   requests = [\<lparr>r_id = 20, studentId = 2, r_professorId = 1, sessionId = 10,
          dissertationTopic = ''Type theory'', message = None,
          r_status = pending, r_rejectionReason = None\<rparr>,
       \<lparr>r_id = 21, studentId = 3, r_professorId = 1, sessionId = 10,
          dissertationTopic = ''Type theory'', message = None,
          r_status = pending, r_rejectionReason = None\<rparr>,
       \<lparr>r_id = 22, studentId = 2, r_professorId = 4, sessionId = 11,
          dissertationTopic = ''Proof search'', message = None,
          r_status = pending, r_rejectionReason = None\<rparr>],
   documents = []\<rparr>"
  by (simp add: ex_defs2 code_defs)

lemmas ex_all = ex_defs2 ex_touching_def ex_after_def ex_too_many_slots_def
  ex_request20_def ex_request21_def ex_request22_def

lemma ex_one_session_eval: "ex_one_session =
  \<lparr>users = [ex_prof, ex_studA, ex_studB],
   sessions = [\<lparr>s_id = 10, s_professorId = 1, title = ''Spring'', description = None,
       startDate = 0, endDate = 100, s_status = active, maxSlots = 1, availableSlots = 1\<rparr>],
   requests = [], documents = []\<rparr>"
  by (simp add: ex_all code_defs)

lemma ex_document_pending_eval: "ex_document_pending =
  \<lparr>users = [ex_prof\<lparr>currentStudentCount := 1\<rparr>, ex_studA\<lparr>approvedProfessorId := Some 1\<rparr>, ex_studB],
   sessions = [\<lparr>s_id = 10, s_professorId = 1, title = ''Spring'', description = None,
       startDate = 0, endDate = 100, s_status = active, maxSlots = 1, availableSlots = 0\<rparr>],
   requests = [\<lparr>r_id = 20, studentId = 2, r_professorId = 1, sessionId = 10,
          dissertationTopic = ''Type theory'', message = None,
          r_status = document_pending, r_rejectionReason = None\<rparr>],
   documents = [\<lparr>d_id = 30, requestId = 20, uploadedBy = 2, uploaderRole = role_student,
      d_file = ex_file, d_status = pending_review, d_rejectionReason = None\<rparr>]\<rparr>"
  by (simp add: ex_all code_defs)

lemma ex_two_professors_eval: "ex_two_professors =
  \<lparr>users = [ex_prof, ex_studA, ex_studB, ex_profQ],
   sessions = [\<lparr>s_id = 10, s_professorId = 1, title = ''Spring'', description = None,
       startDate = 0, endDate = 100, s_status = active, maxSlots = 1, availableSlots = 1\<rparr>],
   requests = [], documents = []\<rparr>"
  by (simp add: ex_two_professors_def ex_all code_defs)

lemma ex_slots_floor_eval: "ex_slots_floor =
  \<lparr>users = [ex_prof5, ex_studA, ex_studB],
   sessions = [\<lparr>s_id = 10, s_professorId = 1, title = ''Spring'', description = None,
       startDate = 0, endDate = 100, s_status = active, maxSlots = 1,
       availableSlots = - 2147483648\<rparr>],
   requests = [ex_request20, ex_request21],
   documents = []\<rparr>"
  by (simp add: ex_slots_floor_def ex_two_pending_eval ex_all)

lemma ex_cascade_requests: "requests ex_cascade = [ex_request20, ex_request21, ex_request22]"
  by (simp add: ex_cascade_eval ex_request20_def ex_request21_def ex_request22_def)

lemma ex_committed_eval:
  "users ex_committed = [ex_prof, ex_studA\<lparr>approvedProfessorId := Some 4\<rparr>, ex_studB, ex_profQ] \<and>
   requests ex_committed = requests (ex_two_pending ex_prof)"
  by (simp add: ex_committed_def)

lemma ex_closed_db_eval:
  "sessions ex_closed_db = [ex_closed_session] \<and>
   sessions ex_upcoming_db = [ex_closed_session\<lparr>s_status := upcoming\<rparr>] \<and>
   startDate ex_closed_session = 0 \<and> endDate ex_closed_session = 100"
  by (simp add: ex_closed_db_def ex_upcoming_db_def ex_closed_session_def)

lemma ex_counter_document_eval:
  "map (\<lambda>x. (d_id x, uploaderRole x, d_status x)) (documents ex_counter_document) =
     [(30, role_student, doc_rejected), (31, role_professor, pending_review)] \<and>
   map r_status (requests ex_counter_document) = [approved]"
  by (simp add: ex_counter_document_def ex_document_pending_eval ex_all code_defs)

lemma ex_bodies_valid:
  "sessionValidation ex_touching \<and> sessionValidation ex_after \<and>
   sessionValidation ex_too_many_slots"
  by (simp add: ex_touching_def ex_after_def ex_too_many_slots_def sessionValidation_def)

subsection \<open>Session statuses in bulk\<close>

text \<open>
  Claim C9 as stated fails: a session stored as closed whose window contains \<open>now\<close> is
  active for the specification and for \<open>updateStatus\<close>, and \<open>updateAllStatuses\<close>
  leaves it closed.
\<close>

theorem updateAllStatuses_closed_counterexample:
  "s_status ex_closed_session = closed \<and>
   spec_recomputeStatus (startDate ex_closed_session) (endDate ex_closed_session) 50 = active \<and>
   sessions (snd (updateStatus ex_closed_session 50 ex_closed_db)) =
     [ex_closed_session\<lparr>s_status := active\<rparr>] \<and>
   sessions (updateAllStatuses 50 ex_closed_db) = [ex_closed_session]"
  by (simp add: ex_all code_defs)

text \<open>
  Claim C9, as amended. When every stored status was the specification's status at some
  earlier time (and the windows are valid), \<open>updateAllStatuses\<close> leaves every session
  with the specification's status for \<open>now\<close>, the same rows \<open>updateStatus\<close> computes
  one by one.
\<close>

theorem updateAllStatuses_catches_up:
  assumes "\<forall>x \<in> set (sessions d). startDate x \<le> endDate x \<and>
             (\<exists>t\<le>now. s_status x = spec_recomputeStatus (startDate x) (endDate x) t)"
  shows "sessions (updateAllStatuses now d) =
           map (\<lambda>x. x\<lparr>s_status := spec_recomputeStatus (startDate x) (endDate x) now\<rparr>) (sessions d)
         \<and> sessions (updateAllStatuses now d) = map (\<lambda>x. fst (updateStatus x now d)) (sessions d)"
proof -
  have row: "(if s_status x = upcoming \<and> startDate x \<le> now \<and> now \<le> endDate x
               then x\<lparr>s_status := active\<rparr>
               else if s_status x \<in> {upcoming, active} \<and> endDate x < now
               then x\<lparr>s_status := closed\<rparr> else x)
             = x\<lparr>s_status := spec_recomputeStatus (startDate x) (endDate x) now\<rparr>"
    if "x \<in> set (sessions d)" for x
  proof -
    from assms that obtain t where t: "startDate x \<le> endDate x" "t \<le> now"
      "s_status x = spec_recomputeStatus (startDate x) (endDate x) t" by blast
    then show ?thesis
      by (cases "s_status x") (auto simp: spec_recomputeStatus_def split: if_splits)
  qed
  have 1: "sessions (updateAllStatuses now d) =
           map (\<lambda>x. x\<lparr>s_status := spec_recomputeStatus (startDate x) (endDate x) now\<rparr>) (sessions d)"
    unfolding sessions_updateAllStatuses by (rule map_cong) (simp_all add: row)
  show ?thesis using 1 by (simp add: fst_updateStatus newStatus_spec)
qed

theorem updateAllStatuses_catches_up_witness:
  "sessions (updateAllStatuses 50 ex_upcoming_db) = [ex_closed_session\<lparr>s_status := active\<rparr>]"
proof -
  have "spec_recomputeStatus 0 100 (-1) = upcoming" by (simp add: spec_recomputeStatus_def)
  then have "\<exists>t\<le>50. upcoming = spec_recomputeStatus 0 100 t"
    by (intro exI[of _ "-1"]) simp
  then have h: "\<forall>x \<in> set (sessions ex_upcoming_db). startDate x \<le> endDate x \<and>
             (\<exists>t\<le>50. s_status x = spec_recomputeStatus (startDate x) (endDate x) t)"
    by (simp add: ex_all)
  from updateAllStatuses_catches_up[OF h] show ?thesis
    by (simp add: ex_all spec_recomputeStatus_def)
qed

subsection \<open>Session windows\<close>

lemma windows_intersect_iff:
  "windows_intersect s1 e1 s2 e2 \<longleftrightarrow> (\<exists>t. s1 \<le> t \<and> t \<le> e1 \<and> s2 \<le> t \<and> t \<le> e2)"
  unfolding windows_intersect_def
proof
  assume "max s1 s2 \<le> min e1 e2"
  then have "s1 \<le> max s1 s2 \<and> max s1 s2 \<le> e1 \<and> s2 \<le> max s1 s2 \<and> max s1 s2 \<le> e2" by simp
  then show "\<exists>t. s1 \<le> t \<and> t \<le> e1 \<and> s2 \<le> t \<and> t \<le> e2" by blast
next
  assume "\<exists>t. s1 \<le> t \<and> t \<le> e1 \<and> s2 \<le> t \<and> t \<le> e2"
  then show "max s1 s2 \<le> min e1 e2" by auto
qed

lemma hasOverlap_iff:
  "hasOverlap this d \<longleftrightarrow> (\<exists>x\<in>set (sessions d). overlap_where this x)"
  by (auto simp: hasOverlap_def findOne_def find_None_iff)

lemma overlap_where_intersect:
  assumes "s_id x \<noteq> s_id this"
  shows "windows_intersect (startDate x) (endDate x) (startDate this) (endDate this) \<and>
         s_professorId x = s_professorId this \<Longrightarrow> overlap_where this x"
    and "overlap_where this x \<Longrightarrow> startDate x \<le> endDate x \<Longrightarrow> startDate this \<le> endDate this \<Longrightarrow>
         windows_intersect (startDate x) (endDate x) (startDate this) (endDate this) \<and>
         s_professorId x = s_professorId this"
  using assms by (auto simp: overlap_where_def windows_intersect_def between_def)

lemma maxSlots_or_5_valid:
  "sessionValidation b \<Longrightarrow> 1 \<le> maxSlots_or_5 (b_maxSlots b)"
  by (auto simp: sessionValidation_def maxSlots_or_5_def split: option.splits)

lemma createSession_no_overlap:
  assumes "sessionValidation b"
    and "\<not> hasOverlap \<lparr>s_id = tempId, s_professorId = u_id user, title = b_title b,
              description = b_description b, startDate = b_startDate b,
              endDate = b_endDate b, s_status = upcoming,
              maxSlots = maxSlots_or_5 (b_maxSlots b),
              availableSlots = maxSlots_or_5 (b_maxSlots b)\<rparr> d"
  shows "createSession user b tempId newId now d =
           (case RegistrationSession_create
                   \<lparr>s_id = newId, s_professorId = u_id user, title = b_title b,
                    description = b_description b, startDate = b_startDate b,
                    endDate = b_endDate b,
                    s_status = spec_recomputeStatus (b_startDate b) (b_endDate b) now,
                    maxSlots = maxSlots_or_5 (b_maxSlots b),
                    availableSlots = maxSlots_or_5 (b_maxSlots b)\<rparr> d of
              Inl e \<Rightarrow> (Next e, d)
            | Inr d' \<Rightarrow> (Json 201 ''Session created successfully'', d'))"
  using assms by (auto simp: createSession_def Let_def spec_recomputeStatus_def)

text \<open>
  Claim C6. For a request that passes the route's validation: when an existing session
  of the same professor has a window that shares an instant with the new one (the ends
  included), \<open>createSession\<close> answers with the overlap error and writes nothing. When
  the new window is ordered and every session of the same professor misses it, the
  answer is never the overlap error, whatever the sessions of other professors are; and
  the session is created when the row is one the store holds: \<open>startDate < endDate\<close>
  (the model's validator), a title of at most 255 characters, \<open>maxSlots\<close> within the
  \<open>INTEGER\<close> range, a fresh primary key and the professor on record. The last conjunct
  shows the need: a window after the existing one with \<open>maxSlots = 2147483648\<close> passes
  the route's validation, overlaps nothing, and the insertion fails.
\<close>

theorem createSession_overlap:
  assumes valid: "sessionValidation b"
    and fresh: "tempId \<notin> s_id ` set (sessions d)"
  shows "((\<exists>x\<in>set (sessions d). s_professorId x = u_id user \<and>
             windows_intersect (startDate x) (endDate x) (b_startDate b) (b_endDate b))
          \<longrightarrow> createSession user b tempId newId now d =
                (Fail 400 ''Session dates overlap with an existing session'', d))
       \<and> (b_startDate b \<le> b_endDate b \<and>
          (\<forall>x\<in>set (sessions d). s_professorId x = u_id user \<longrightarrow>
             startDate x \<le> endDate x \<and>
             \<not> windows_intersect (startDate x) (endDate x) (b_startDate b) (b_endDate b))
          \<longrightarrow> fst (createSession user b tempId newId now d) \<noteq>
                Fail 400 ''Session dates overlap with an existing session'')
       \<and> (b_startDate b < b_endDate b \<and>
          (\<forall>x\<in>set (sessions d). s_professorId x = u_id user \<longrightarrow>
             startDate x \<le> endDate x \<and>
             \<not> windows_intersect (startDate x) (endDate x) (b_startDate b) (b_endDate b)) \<and>
          length (b_title b) \<le> 255 \<and> int4 (maxSlots_or_5 (b_maxSlots b)) \<and>
          newId \<notin> s_id ` set (sessions d) \<and> u_id user \<in> u_id ` set (users d)
          \<longrightarrow> createSession user b tempId newId now d =
                (Json 201 ''Session created successfully'',
                 d\<lparr>sessions := sessions d @ [\<lparr>s_id = newId, s_professorId = u_id user, title = b_title b,
                      description = b_description b, startDate = b_startDate b,
                      endDate = b_endDate b,
                      s_status = spec_recomputeStatus (b_startDate b) (b_endDate b) now,
                      maxSlots = maxSlots_or_5 (b_maxSlots b),
                      availableSlots = maxSlots_or_5 (b_maxSlots b)\<rparr>]\<rparr>))
       \<and> (sessionValidation ex_too_many_slots \<and>
          \<not> (\<exists>x\<in>set (sessions ex_one_session).
                windows_intersect (startDate x) (endDate x)
                  (b_startDate ex_too_many_slots) (b_endDate ex_too_many_slots)) \<and>
          createSession ex_prof ex_too_many_slots 11 12 50 ex_one_session =
            (Next SequelizeDatabaseError, ex_one_session))"
proof -
  let ?tmp = "\<lparr>s_id = tempId, s_professorId = u_id user, title = b_title b,
              description = b_description b, startDate = b_startDate b,
              endDate = b_endDate b, s_status = upcoming,
              maxSlots = maxSlots_or_5 (b_maxSlots b),
              availableSlots = maxSlots_or_5 (b_maxSlots b)\<rparr>"
  let ?row = "\<lparr>s_id = newId, s_professorId = u_id user, title = b_title b,
                      description = b_description b, startDate = b_startDate b,
                      endDate = b_endDate b,
                      s_status = spec_recomputeStatus (b_startDate b) (b_endDate b) now,
                      maxSlots = maxSlots_or_5 (b_maxSlots b),
                      availableSlots = maxSlots_or_5 (b_maxSlots b)\<rparr>"
  let ?overlap = "Fail 400 ''Session dates overlap with an existing session''"
  have ne: "s_id x \<noteq> s_id ?tmp" if "x \<in> set (sessions d)" for x
    using fresh that by auto
  have no: "\<not> hasOverlap ?tmp d"
    if le: "b_startDate b \<le> b_endDate b"
    and miss: "\<forall>x\<in>set (sessions d). s_professorId x = u_id user \<longrightarrow>
             startDate x \<le> endDate x \<and>
             \<not> windows_intersect (startDate x) (endDate x) (b_startDate b) (b_endDate b)"
  proof -
    have "\<not> overlap_where ?tmp x" if x: "x \<in> set (sessions d)" for x
    proof
      assume o: "overlap_where ?tmp x"
      then have p: "s_professorId x = u_id user" by (simp add: overlap_where_def)
      with miss x have w: "startDate x \<le> endDate x"
        "\<not> windows_intersect (startDate x) (endDate x) (b_startDate b) (b_endDate b)" by auto
      from overlap_where_intersect(2)[OF ne[OF x] o] w(1) le
      have "windows_intersect (startDate x) (endDate x) (b_startDate b) (b_endDate b)" by simp
      with w(2) show False by simp
    qed
    then show ?thesis by (auto simp: hasOverlap_iff)
  qed
  have 1: "createSession user b tempId newId now d = (?overlap, d)"
    if "\<exists>x\<in>set (sessions d). s_professorId x = u_id user \<and>
             windows_intersect (startDate x) (endDate x) (b_startDate b) (b_endDate b)"
  proof -
    from that obtain x where x: "x \<in> set (sessions d)" "s_professorId x = u_id user"
      "windows_intersect (startDate x) (endDate x) (b_startDate b) (b_endDate b)" by blast
    have "overlap_where ?tmp x"
      using overlap_where_intersect(1)[OF ne[OF x(1)]] x by simp
    then have "hasOverlap ?tmp d" using x(1) by (auto simp: hasOverlap_iff)
    then show ?thesis using valid by (simp add: createSession_def Let_def)
  qed
  have 2: "fst (createSession user b tempId newId now d) \<noteq> ?overlap"
    if "b_startDate b \<le> b_endDate b \<and>
          (\<forall>x\<in>set (sessions d). s_professorId x = u_id user \<longrightarrow>
             startDate x \<le> endDate x \<and>
             \<not> windows_intersect (startDate x) (endDate x) (b_startDate b) (b_endDate b))"
  proof -
    from that no have "\<not> hasOverlap ?tmp d" by blast
    from createSession_no_overlap[OF valid this] show ?thesis
      by (simp split: sum.splits)
  qed
  have 3: "createSession user b tempId newId now d =
             (Json 201 ''Session created successfully'', d\<lparr>sessions := sessions d @ [?row]\<rparr>)"
    if a: "b_startDate b < b_endDate b \<and>
          (\<forall>x\<in>set (sessions d). s_professorId x = u_id user \<longrightarrow>
             startDate x \<le> endDate x \<and>
             \<not> windows_intersect (startDate x) (endDate x) (b_startDate b) (b_endDate b)) \<and>
          length (b_title b) \<le> 255 \<and> int4 (maxSlots_or_5 (b_maxSlots b)) \<and>
          newId \<notin> s_id ` set (sessions d) \<and> u_id user \<in> u_id ` set (users d)"
  proof -
    from a have "b_startDate b \<le> b_endDate b" by simp
    with a no have "\<not> hasOverlap ?tmp d" by blast
    from createSession_no_overlap[OF valid this]
    have "createSession user b tempId newId now d =
           (case RegistrationSession_create ?row d of
              Inl e \<Rightarrow> (Next e, d)
            | Inr d' \<Rightarrow> (Json 201 ''Session created successfully'', d'))" .
    moreover have "RegistrationSession_create ?row d = Inr (d\<lparr>sessions := sessions d @ [?row]\<rparr>)"
      using a maxSlots_or_5_valid[OF valid]
      by (simp add: RegistrationSession_create_def session_valid_def session_columns_def
            insert_row_def)
    ultimately show ?thesis by simp
  qed
  have 4: "sessionValidation ex_too_many_slots \<and>
          \<not> (\<exists>x\<in>set (sessions ex_one_session).
                windows_intersect (startDate x) (endDate x)
                  (b_startDate ex_too_many_slots) (b_endDate ex_too_many_slots)) \<and>
          createSession ex_prof ex_too_many_slots 11 12 50 ex_one_session =
            (Next SequelizeDatabaseError, ex_one_session)"
    by (simp add: ex_one_session_eval ex_too_many_slots_def ex_prof_def windows_intersect_def
          createSession_def sessionValidation_def maxSlots_or_5_def hasOverlap_def findOne_def
          overlap_where_def between_def RegistrationSession_create_def session_valid_def
          session_columns_def int4_def Let_def)
  from 1 2 3 4 show ?thesis by blast
qed

theorem createSession_overlap_witness:
  "createSession ex_prof ex_touching 11 12 50 ex_two_professors =
     (Fail 400 ''Session dates overlap with an existing session'', ex_two_professors) \<and>
   fst (createSession ex_prof ex_too_many_slots 11 12 50 ex_two_professors) \<noteq>
     Fail 400 ''Session dates overlap with an existing session'' \<and>
   fst (createSession ex_profQ ex_touching 11 12 50 ex_two_professors) =
     Json 201 ''Session created successfully'' \<and>
   map s_professorId (sessions (snd (createSession ex_profQ ex_touching 11 12 50 ex_two_professors))) =
     [1, 4] \<and>
   fst (createSession ex_prof ex_after 11 12 50 ex_two_professors) =
     Json 201 ''Session created successfully''"
proof -
  have v: "sessionValidation ex_touching" "sessionValidation ex_after"
    "sessionValidation ex_too_many_slots"
    by (simp_all add: ex_all sessionValidation_def)
  have fresh: "11 \<notin> s_id ` set (sessions ex_two_professors)"
    by (simp add: ex_two_professors_eval)
  have 1: "\<exists>x\<in>set (sessions ex_two_professors). s_professorId x = u_id ex_prof \<and>
             windows_intersect (startDate x) (endDate x) (b_startDate ex_touching) (b_endDate ex_touching)"
    by (simp add: ex_two_professors_eval ex_all windows_intersect_def)
  have 2: "b_startDate ex_too_many_slots \<le> b_endDate ex_too_many_slots \<and>
          (\<forall>x\<in>set (sessions ex_two_professors). s_professorId x = u_id ex_prof \<longrightarrow>
             startDate x \<le> endDate x \<and>
             \<not> windows_intersect (startDate x) (endDate x)
                 (b_startDate ex_too_many_slots) (b_endDate ex_too_many_slots))"
    by (simp add: ex_two_professors_eval ex_all windows_intersect_def)
  have 3: "b_startDate ex_touching < b_endDate ex_touching \<and>
          (\<forall>x\<in>set (sessions ex_two_professors). s_professorId x = u_id ex_profQ \<longrightarrow>
             startDate x \<le> endDate x \<and>
             \<not> windows_intersect (startDate x) (endDate x) (b_startDate ex_touching) (b_endDate ex_touching)) \<and>
          length (b_title ex_touching) \<le> 255 \<and> int4 (maxSlots_or_5 (b_maxSlots ex_touching)) \<and>
          12 \<notin> s_id ` set (sessions ex_two_professors) \<and>
          u_id ex_profQ \<in> u_id ` set (users ex_two_professors)"
    by (simp add: ex_two_professors_eval ex_all maxSlots_or_5_def int4_def)
  have 4: "b_startDate ex_after < b_endDate ex_after \<and>
          (\<forall>x\<in>set (sessions ex_two_professors). s_professorId x = u_id ex_prof \<longrightarrow>
             startDate x \<le> endDate x \<and>
             \<not> windows_intersect (startDate x) (endDate x) (b_startDate ex_after) (b_endDate ex_after)) \<and>
          length (b_title ex_after) \<le> 255 \<and> int4 (maxSlots_or_5 (b_maxSlots ex_after)) \<and>
          12 \<notin> s_id ` set (sessions ex_two_professors) \<and>
          u_id ex_prof \<in> u_id ` set (users ex_two_professors)"
    by (simp add: ex_two_professors_eval ex_all windows_intersect_def maxSlots_or_5_def int4_def)
  from createSession_overlap[OF v(1) fresh, of ex_prof 12 50, THEN conjunct1, THEN mp, OF 1]
  have a: "createSession ex_prof ex_touching 11 12 50 ex_two_professors =
     (Fail 400 ''Session dates overlap with an existing session'', ex_two_professors)" .
  from createSession_overlap[OF v(3) fresh, of ex_prof 12 50, THEN conjunct2, THEN conjunct1,
      THEN mp, OF 2]
  have b: "fst (createSession ex_prof ex_too_many_slots 11 12 50 ex_two_professors) \<noteq>
     Fail 400 ''Session dates overlap with an existing session''" .
  from createSession_overlap[OF v(1) fresh, of ex_profQ 12 50, THEN conjunct2, THEN conjunct2,
      THEN conjunct1, THEN mp, OF 3]
  have c: "fst (createSession ex_profQ ex_touching 11 12 50 ex_two_professors) =
     Json 201 ''Session created successfully''"
    "map s_professorId (sessions (snd (createSession ex_profQ ex_touching 11 12 50 ex_two_professors))) =
     [1, 4]"
    by (simp_all add: ex_two_professors_eval ex_all)
  from createSession_overlap[OF v(2) fresh, of ex_prof 12 50, THEN conjunct2, THEN conjunct2,
      THEN conjunct1, THEN mp, OF 4]
  have d: "fst (createSession ex_prof ex_after 11 12 50 ex_two_professors) =
     Json 201 ''Session created successfully''" by simp
  from a b c d show ?thesis by simp
qed

subsection \<open>Approval\<close>

lemma list_ex_update_accepted:
  "list_ex (\<lambda>u. u_id u = p \<and> \<not> int4 (currentStudentCount u + 1))
     (update_where w (\<lambda>u. u\<lparr>approvedProfessorId := x\<rparr>) us) =
   list_ex (\<lambda>u. u_id u = p \<and> \<not> int4 (currentStudentCount u + 1)) us"
  by (induction us) (auto simp: update_where_def)

lemma approve_transaction_refused:
  "counter_refused this d \<Longrightarrow> approve_transaction this d = (Some SequelizeDatabaseError, d)"
  by (auto simp: counter_refused_def approve_transaction_def approve_try_def transaction_def
        in_tx_def rollback_def Let_def list_ex_update_accepted)

lemma approve_transaction_commits:
  assumes "\<not> counter_refused this d"
  shows "approve_transaction this d =
    (None, d\<lparr>requests :=
               map (\<lambda>r. if r_id r = r_id this then r\<lparr>r_status := approved\<rparr>
                         else if studentId r = studentId this \<and> r_status r = pending
                         then r\<lparr>r_status := rejected,
                                r_rejectionReason :=
                                  Some (utf16 ''Student was approved by another professor'')\<rparr>
                         else r) (requests d),
             users :=
               map (\<lambda>u. (if u_id u = r_professorId this
                           then (\<lambda>v. v\<lparr>currentStudentCount := currentStudentCount v + 1\<rparr>)
                           else (\<lambda>v. v))
                          (if u_id u = studentId this
                           then u\<lparr>approvedProfessorId := Some (r_professorId this)\<rparr> else u))
                   (users d),
             sessions :=
               map (\<lambda>s. if s_id s = sessionId this
                         then s\<lparr>availableSlots := availableSlots s - 1\<rparr> else s) (sessions d)\<rparr>)"
proof -
  have 1: "\<not> list_ex (\<lambda>u. u_id u = r_professorId this \<and> \<not> int4 (currentStudentCount u + 1))
             (update_where (\<lambda>u. u_id u = studentId this)
                (\<lambda>u. u\<lparr>approvedProfessorId := Some (r_professorId this)\<rparr>) (users d))"
    using assms by (simp add: counter_refused_def list_ex_update_accepted)
  have 2: "\<not> list_ex (\<lambda>s. s_id s = sessionId this \<and> \<not> int4 (availableSlots s - 1)) (sessions d)"
    using assms by (simp add: counter_refused_def)
  have r: "update_where (\<lambda>r. studentId r = studentId this \<and> r_id r \<noteq> r_id this \<and> r_status r = pending)
             (\<lambda>r. r\<lparr>r_status := rejected,
                    r_rejectionReason := Some (utf16 ''Student was approved by another professor'')\<rparr>)
             (update_where (\<lambda>r. r_id r = r_id this) (\<lambda>r. r\<lparr>r_status := approved\<rparr>) (requests d)) =
           map (\<lambda>r. if r_id r = r_id this then r\<lparr>r_status := approved\<rparr>
                         else if studentId r = studentId this \<and> r_status r = pending
                         then r\<lparr>r_status := rejected,
                                r_rejectionReason :=
                                  Some (utf16 ''Student was approved by another professor'')\<rparr>
                         else r) (requests d)"
    by (auto simp: update_where_def)
  have u: "update_where (\<lambda>u. u_id u = r_professorId this)
             (\<lambda>u. u\<lparr>currentStudentCount := currentStudentCount u + 1\<rparr>)
             (update_where (\<lambda>u. u_id u = studentId this)
                (\<lambda>u. u\<lparr>approvedProfessorId := Some (r_professorId this)\<rparr>) (users d)) =
           map (\<lambda>u. (if u_id u = r_professorId this
                           then (\<lambda>v. v\<lparr>currentStudentCount := currentStudentCount v + 1\<rparr>)
                           else (\<lambda>v. v))
                          (if u_id u = studentId this
                           then u\<lparr>approvedProfessorId := Some (r_professorId this)\<rparr> else u))
                   (users d)"
    by (auto simp: update_where_def)
  have s: "update_where (\<lambda>s. s_id s = sessionId this)
             (\<lambda>s. s\<lparr>availableSlots := availableSlots s - 1\<rparr>) (sessions d) =
           map (\<lambda>s. if s_id s = sessionId this
                         then s\<lparr>availableSlots := availableSlots s - 1\<rparr> else s) (sessions d)"
    by (simp add: update_where_def)
  show ?thesis
    unfolding approve_transaction_def approve_try_def transaction_def in_tx_def commit_def Let_def
    using 1 2 by (simp add: r u s)
qed

text \<open>
  Claim C1. The sponsor asks to approve a pending request of theirs. When the guard
  refuses, the call throws the guard's reason. When the store refuses one of the two
  counter writes (the new value leaves the \<open>INTEGER\<close> range), the \<open>catch\<close> block
  rolls the transaction back and the call throws the store's error. In both cases the
  store is as it was. Otherwise the call succeeds and the store holds all five writes:
  the request's status is approved; every other pending request of the same applicant is
  rejected with the system's reason, and no other request changes; the applicant's
  \<open>approvedProfessorId\<close> is the request's sponsor; the sponsor's
  \<open>currentStudentCount\<close> is one more; the session's \<open>availableSlots\<close> is one less;
  the documents are untouched. The last conjunct shows a refused write: in
  \<open>ex_slots_floor\<close> the guard passes, the decrement of \<open>availableSlots\<close> is refused
  when the transaction's view already holds the first three writes, and the handler
  leaves the store as it was.
\<close>

theorem approveRequest_atomic:
  assumes "findByPk r_id k (requests d) = Some this"
    and "r_professorId this = u_id user"
    and "r_status this = pending"
  shows "approveRequest user k d =
          (case canBeApproved this d of
             Some reason \<Rightarrow> (Next (Error reason), d)
           | None \<Rightarrow>
               if counter_refused this d then (Next SequelizeDatabaseError, d)
               else (Json 200 ''Request approved successfully'',
                 d\<lparr>requests :=
                     map (\<lambda>r. if r_id r = k then r\<lparr>r_status := approved\<rparr>
                               else if studentId r = studentId this \<and> r_status r = pending
                               then r\<lparr>r_status := rejected,
                                      r_rejectionReason :=
                                        Some (utf16 ''Student was approved by another professor'')\<rparr>
                               else r) (requests d),
                   users :=
                     map (\<lambda>u. (if u_id u = r_professorId this
                                 then (\<lambda>v. v\<lparr>currentStudentCount := currentStudentCount v + 1\<rparr>)
                                 else (\<lambda>v. v))
                                (if u_id u = studentId this
                                 then u\<lparr>approvedProfessorId := Some (r_professorId this)\<rparr> else u))
                         (users d),
                   sessions :=
                     map (\<lambda>s. if s_id s = sessionId this
                               then s\<lparr>availableSlots := availableSlots s - 1\<rparr> else s)
                         (sessions d)\<rparr>))
       \<and> (findByPk r_id 20 (requests ex_slots_floor) = Some ex_request20 \<and>
          canBeApproved ex_request20 ex_slots_floor = None \<and>
          (case approve_try ex_request20 (transaction ex_slots_floor) of
             Inl (e, t) \<Rightarrow>
               e = SequelizeDatabaseError \<and> snapshot t = ex_slots_floor \<and>
               map r_status (requests (view t)) = [approved, pending] \<and>
               map approvedProfessorId (users (view t)) = [None, Some 1, None] \<and>
               map currentStudentCount (users (view t)) = [1, 0, 0] \<and>
               map availableSlots (sessions (view t)) = [- 2147483648]
           | Inr t \<Rightarrow> False) \<and>
          approveRequest ex_prof5 20 ex_slots_floor = (Next SequelizeDatabaseError, ex_slots_floor))"
proof -
  from assms(1) have k: "r_id this = k" by (simp add: findByPk_Some_D)
  have 1: "approveRequest user k d =
          (case canBeApproved this d of
             Some reason \<Rightarrow> (Next (Error reason), d)
           | None \<Rightarrow>
               (case approve_transaction this d of
                  (Some e, d') \<Rightarrow> (Next e, d')
                | (None, d') \<Rightarrow> (Json 200 ''Request approved successfully'', d')))"
    using assms by (simp add: approveRequest_def approve_def split: option.splits)
  have 2: "findByPk r_id 20 (requests ex_slots_floor) = Some ex_request20 \<and>
          canBeApproved ex_request20 ex_slots_floor = None \<and>
          (case approve_try ex_request20 (transaction ex_slots_floor) of
             Inl (e, t) \<Rightarrow>
               e = SequelizeDatabaseError \<and> snapshot t = ex_slots_floor \<and>
               map r_status (requests (view t)) = [approved, pending] \<and>
               map approvedProfessorId (users (view t)) = [None, Some 1, None] \<and>
               map currentStudentCount (users (view t)) = [1, 0, 0] \<and>
               map availableSlots (sessions (view t)) = [- 2147483648]
           | Inr t \<Rightarrow> False) \<and>
          approveRequest ex_prof5 20 ex_slots_floor = (Next SequelizeDatabaseError, ex_slots_floor)"
    by (simp add: ex_slots_floor_eval ex_all code_defs)
  show ?thesis
  proof (cases "canBeApproved this d")
    case (Some reason)
    with 1 2 show ?thesis by simp
  next
    case None
    show ?thesis
    proof (cases "counter_refused this d")
      case True
      with 1 2 None approve_transaction_refused[OF True] show ?thesis by simp
    next
      case False
      with 1 2 None approve_transaction_commits[OF False] k show ?thesis by simp
    qed
  qed
qed

theorem approveRequest_atomic_witness:
  "fst (approveRequest ex_prof5 20 ex_cascade) = Json 200 ''Request approved successfully'' \<and>
   map r_status (requests (snd (approveRequest ex_prof5 20 ex_cascade))) =
     [approved, pending, rejected] \<and>
   map r_rejectionReason (requests (snd (approveRequest ex_prof5 20 ex_cascade))) =
     [None, None, Some (utf16 ''Student was approved by another professor'')] \<and>
   map approvedProfessorId (users (snd (approveRequest ex_prof5 20 ex_cascade))) =
     [None, Some 1, None, None] \<and>
   map currentStudentCount (users (snd (approveRequest ex_prof5 20 ex_cascade))) = [1, 0, 0, 0] \<and>
   map availableSlots (sessions (snd (approveRequest ex_prof5 20 ex_cascade))) = [0, 1]"
proof -
  have 1: "findByPk r_id 20 (requests ex_cascade) = Some ex_request20"
    by (simp add: ex_cascade_eval findByPk_def ex_request20_def)
  have 2: "r_professorId ex_request20 = u_id ex_prof5" "r_status ex_request20 = pending"
    by (simp_all add: ex_all)
  have 3: "canBeApproved ex_request20 ex_cascade = None"
    by (simp add: ex_cascade_eval ex_all canBeApproved_def findByPk_def)
  have 4: "\<not> counter_refused ex_request20 ex_cascade"
    by (simp add: ex_cascade_eval ex_all counter_refused_def int4_def)
  from approveRequest_atomic[OF 1 2, THEN conjunct1] 3 4 show ?thesis
    by (simp add: ex_cascade_eval ex_all)
qed

text \<open>
  Claim C3. The sponsor of a pending request asks to approve it. When the applicant
  already has an accepted sponsor the call throws \<open>Student already approved by ...\<close>;
  when the applicant has none and the sponsor's count has reached \<open>maxStudents\<close> it
  throws \<open>Professor has reached maximum student capacity\<close>; both leave the store as it
  was. The scenario: a sponsor with capacity 1 and count 0 has two pending requests of
  two applicants; approving the first succeeds, approving the second then throws the
  capacity error and changes nothing.
\<close>

theorem approveRequest_guard_fails:
  assumes "findByPk r_id k (requests d) = Some this"
    and "r_professorId this = u_id user"
    and "r_status this = pending"
    and "findByPk u_id (studentId this) (users d) = Some st"
  shows "(\<forall>pid. approvedProfessorId st = Some pid \<longrightarrow>
            approveRequest user k d =
              (Next (Error (''Student already approved by '' @
                 (case findByPk u_id pid (users d) of
                    None \<Rightarrow> ''another professor''
                  | Some p \<Rightarrow> if u_name p \<noteq> [] then u_name p else ''another professor''))), d))
       \<and> (\<forall>pr. approvedProfessorId st = None \<and>
                findByPk u_id (r_professorId this) (users d) = Some pr \<and>
                currentStudentCount pr \<ge> maxStudents pr \<longrightarrow>
            approveRequest user k d =
              (Next (Error ''Professor has reached maximum student capacity''), d))
       \<and> (maxStudents ex_prof = 1 \<and> currentStudentCount ex_prof = 0 \<and>
          map r_status (requests (ex_two_pending ex_prof)) = [pending, pending] \<and>
          map studentId (requests (ex_two_pending ex_prof)) = [2, 3] \<and>
          map r_professorId (requests (ex_two_pending ex_prof)) = [u_id ex_prof, u_id ex_prof] \<and>
          fst (approveRequest ex_prof 20 (ex_two_pending ex_prof)) =
            Json 200 ''Request approved successfully'' \<and>
          approveRequest ex_prof 21 (snd (approveRequest ex_prof 20 (ex_two_pending ex_prof))) =
            (Next (Error ''Professor has reached maximum student capacity''),
             snd (approveRequest ex_prof 20 (ex_two_pending ex_prof))))"
proof (intro conjI allI impI)
  fix pid assume "approvedProfessorId st = Some pid"
  with assms show "approveRequest user k d =
              (Next (Error (''Student already approved by '' @
                 (case findByPk u_id pid (users d) of
                    None \<Rightarrow> ''another professor''
                  | Some p \<Rightarrow> if u_name p \<noteq> [] then u_name p else ''another professor''))), d)"
    by (simp add: approveRequest_def approve_def canBeApproved_def split: option.splits)
next
  fix pr assume "approvedProfessorId st = None \<and>
                findByPk u_id (r_professorId this) (users d) = Some pr \<and>
                currentStudentCount pr \<ge> maxStudents pr"
  with assms show "approveRequest user k d =
              (Next (Error ''Professor has reached maximum student capacity''), d)"
    by (simp add: approveRequest_def approve_def canBeApproved_def)
qed (simp_all add: ex_two_pending_eval ex_all code_defs)

theorem approveRequest_guard_fails_witness:
  "approveRequest ex_prof 20 ex_committed =
     (Next (Error ''Student already approved by Eve''), ex_committed)"
proof -
  let ?r = "\<lparr>r_id = 20, studentId = 2, r_professorId = 1, sessionId = 10,
          dissertationTopic = ''Type theory'', message = None,
          r_status = pending, r_rejectionReason = None\<rparr>"
  let ?st = "ex_studA\<lparr>approvedProfessorId := Some 4\<rparr>"
  have 1: "findByPk r_id 20 (requests ex_committed) = Some ?r"
    by (simp add: ex_committed_def ex_two_pending_eval findByPk_def ex_prof_def)
  have 2: "r_professorId ?r = u_id ex_prof" "r_status ?r = pending"
    by (simp_all add: ex_prof_def)
  have 3: "findByPk u_id (studentId ?r) (users ex_committed) = Some ?st"
    by (simp add: ex_committed_def ex_two_pending_eval findByPk_def ex_all)
  have 4: "approvedProfessorId ?st = Some 4" by simp
  have 5: "findByPk u_id 4 (users ex_committed) = Some ex_profQ"
    by (simp add: ex_committed_def ex_two_pending_eval findByPk_def ex_all)
  from approveRequest_guard_fails[OF 1 2 3] 4 5 show ?thesis
    by (simp add: ex_profQ_def)
qed

subsection \<open>Submission\<close>

lemma updateStatus_frame:
  "users (snd (updateStatus s now d)) = users d"
  "requests (snd (updateStatus s now d)) = requests d"
  "documents (snd (updateStatus s now d)) = documents d"
  "map availableSlots (sessions (snd (updateStatus s now d))) = map availableSlots (sessions d)"
  "map maxSlots (sessions (snd (updateStatus s now d))) = map maxSlots (sessions d)"
  "map s_id (sessions (snd (updateStatus s now d))) = map s_id (sessions d)"
  by (auto simp: updateStatus_def update_where_def)

lemma fst_updateStatus_fields:
  "availableSlots (fst (updateStatus s now d)) = availableSlots s"
  "s_status (fst (updateStatus s now d)) = newStatus now s"
  "s_professorId (fst (updateStatus s now d)) = s_professorId s"
  by (auto simp: updateStatus_def)

text \<open>
  Claim C7. When the session has no slot left, \<open>createRequest\<close> fails and creates no
  request, and touches neither the users, the documents nor any \<open>availableSlots\<close>; the
  failure is the no-slots error as soon as the guards checked before it pass (valid body,
  applicant without accepted sponsor, session active at the time of the call). When
  \<open>createRequest\<close> succeeds it appends one pending request and leaves the users
  (so the sponsor's count and the applicant's accepted sponsor) and every
  \<open>availableSlots\<close> as they were.
\<close>

theorem createRequest_frame:
  "(\<forall>s. findByPk s_id (b_sessionId b) (sessions d) = Some s \<and> availableSlots s \<le> 0 \<longrightarrow>
       (\<exists>n m. fst (createRequest user b newId now d) = Fail n m) \<and>
       requests (snd (createRequest user b newId now d)) = requests d \<and>
       users (snd (createRequest user b newId now d)) = users d \<and>
       documents (snd (createRequest user b newId now d)) = documents d \<and>
       map availableSlots (sessions (snd (createRequest user b newId now d))) =
         map availableSlots (sessions d) \<and>
       (createRequestValidation b \<and> approvedProfessorId user = None \<and> newStatus now s = active \<longrightarrow>
          fst (createRequest user b newId now d) =
            Fail 400 ''This session has no available slots''))
   \<and> (fst (createRequest user b newId now d) = Json 201 ''Request submitted successfully'' \<longrightarrow>
       (\<exists>s. findByPk s_id (b_sessionId b) (sessions d) = Some s \<and> 0 < availableSlots s \<and>
          requests (snd (createRequest user b newId now d)) =
            requests d @ [\<lparr>r_id = newId, studentId = u_id user, r_professorId = s_professorId s,
                           sessionId = b_sessionId b, dissertationTopic = b_dissertationTopic b,
                           message = b_message b, r_status = pending, r_rejectionReason = None\<rparr>]) \<and>
       users (snd (createRequest user b newId now d)) = users d \<and>
       documents (snd (createRequest user b newId now d)) = documents d \<and>
       map availableSlots (sessions (snd (createRequest user b newId now d))) =
         map availableSlots (sessions d))"
proof (intro conjI allI impI)
  fix s assume a: "findByPk s_id (b_sessionId b) (sessions d) = Some s \<and> availableSlots s \<le> 0"
  obtain s' d1 where u: "updateStatus s now d = (s', d1)" by (cases "updateStatus s now d")
  have f: "availableSlots s' = availableSlots s" "s_status s' = newStatus now s"
    "users d1 = users d" "requests d1 = requests d" "documents d1 = documents d"
    "map availableSlots (sessions d1) = map availableSlots (sessions d)"
    using fst_updateStatus_fields[of s now d] updateStatus_frame[of s now d] u by simp_all
  show "\<exists>n m. fst (createRequest user b newId now d) = Fail n m"
    using a u f by (simp add: createRequest_def)
  show "requests (snd (createRequest user b newId now d)) = requests d"
    using a u f by (simp add: createRequest_def)
  show "users (snd (createRequest user b newId now d)) = users d"
    using a u f by (simp add: createRequest_def)
  show "documents (snd (createRequest user b newId now d)) = documents d"
    using a u f by (simp add: createRequest_def)
  show "map availableSlots (sessions (snd (createRequest user b newId now d))) =
         map availableSlots (sessions d)"
    using a u f by (simp add: createRequest_def)
  show "fst (createRequest user b newId now d) = Fail 400 ''This session has no available slots''"
    if "createRequestValidation b \<and> approvedProfessorId user = None \<and> newStatus now s = active"
    using a u f that by (simp add: createRequest_def)
next
  assume ok: "fst (createRequest user b newId now d) = Json 201 ''Request submitted successfully''"
  then obtain s where s: "findByPk s_id (b_sessionId b) (sessions d) = Some s"
    by (cases "findByPk s_id (b_sessionId b) (sessions d)")
       (auto simp: createRequest_def split: if_splits)
  obtain s' d1 where u: "updateStatus s now d = (s', d1)" by (cases "updateStatus s now d")
  have f: "availableSlots s' = availableSlots s" "s_status s' = newStatus now s"
    "s_professorId s' = s_professorId s"
    "users d1 = users d" "requests d1 = requests d" "documents d1 = documents d"
    "map availableSlots (sessions d1) = map availableSlots (sessions d)"
    using fst_updateStatus_fields[of s now d] updateStatus_frame[of s now d] u by simp_all
  let ?row = "\<lparr>r_id = newId, studentId = u_id user, r_professorId = s_professorId s,
                           sessionId = b_sessionId b, dissertationTopic = b_dissertationTopic b,
                           message = b_message b, r_status = pending, r_rejectionReason = None\<rparr>"
  from ok s u f have pos: "0 < availableSlots s"
    by (auto simp: createRequest_def split: if_splits)
  from ok s u f have d2: "snd (createRequest user b newId now d) = d1\<lparr>requests := requests d @ [?row]\<rparr>"
    by (auto simp: createRequest_def CoordinationRequest_create_def insert_row_def
             split: if_splits sum.splits)
  show "\<exists>s. findByPk s_id (b_sessionId b) (sessions d) = Some s \<and> 0 < availableSlots s \<and>
          requests (snd (createRequest user b newId now d)) =
            requests d @ [\<lparr>r_id = newId, studentId = u_id user, r_professorId = s_professorId s,
                           sessionId = b_sessionId b, dissertationTopic = b_dissertationTopic b,
                           message = b_message b, r_status = pending, r_rejectionReason = None\<rparr>]"
    using s pos d2 by simp
  show "users (snd (createRequest user b newId now d)) = users d" using d2 f by simp
  show "documents (snd (createRequest user b newId now d)) = documents d" using d2 f by simp
  show "map availableSlots (sessions (snd (createRequest user b newId now d))) =
         map availableSlots (sessions d)" using d2 f by simp
qed

theorem createRequest_frame_witness:
  "fst (createRequest ex_studB ex_req 23 50 (snd (approveRequest ex_prof 20 (ex_two_pending ex_prof))))
     = Fail 400 ''This session has no available slots'' \<and>
   requests (snd (createRequest ex_studB ex_req 23 50
       (snd (approveRequest ex_prof 20 (ex_two_pending ex_prof))))) =
     requests (snd (approveRequest ex_prof 20 (ex_two_pending ex_prof))) \<and>
   fst (createRequest ex_studA ex_req 20 50 ex_one_session) =
     Json 201 ''Request submitted successfully'' \<and>
   map r_status (requests (snd (createRequest ex_studA ex_req 20 50 ex_one_session))) = [pending] \<and>
   map availableSlots (sessions (snd (createRequest ex_studA ex_req 20 50 ex_one_session))) = [1] \<and>
   users (snd (createRequest ex_studA ex_req 20 50 ex_one_session)) = users ex_one_session"
proof -
  let ?d = "snd (approveRequest ex_prof 20 (ex_two_pending ex_prof))"
  let ?s = "\<lparr>s_id = 10, s_professorId = 1, title = ''Spring'', description = None,
       startDate = 0, endDate = 100, s_status = active, maxSlots = 1, availableSlots = 0\<rparr>"
  have s: "findByPk s_id (b_sessionId ex_req) (sessions ?d) = Some ?s \<and> availableSlots ?s \<le> 0"
    by (simp add: ex_two_pending_eval ex_all code_defs)
  have g: "createRequestValidation ex_req \<and> approvedProfessorId ex_studB = None \<and>
           newStatus 50 ?s = active"
    by (simp add: ex_all createRequestValidation_def newStatus_def)
  have ok: "fst (createRequest ex_studA ex_req 20 50 ex_one_session) =
     Json 201 ''Request submitted successfully''"
    by (simp add: ex_one_session_eval ex_all code_defs)
  from createRequest_frame[of ex_req ?d ex_studB 23 50, THEN conjunct1, THEN spec, THEN mp, OF s] g
  have a: "fst (createRequest ex_studB ex_req 23 50 ?d) = Fail 400 ''This session has no available slots''"
      "requests (snd (createRequest ex_studB ex_req 23 50 ?d)) = requests ?d"
    by simp_all
  from createRequest_frame[of ex_req ex_one_session ex_studA 20 50, THEN conjunct2, THEN mp, OF ok]
  have b: "map r_status (requests (snd (createRequest ex_studA ex_req 20 50 ex_one_session))) = [pending]"
    "map availableSlots (sessions (snd (createRequest ex_studA ex_req 20 50 ex_one_session))) = [1]"
    "users (snd (createRequest ex_studA ex_req 20 50 ex_one_session)) = users ex_one_session"
    by (auto simp: ex_one_session_eval)
  from a b ok show ?thesis by simp
qed

subsection \<open>Document review\<close>

lemma map_pk_update_where:
  assumes "\<And>r. pk (f r) = pk r"
  shows "map pk (update_where wh f rows) = map pk rows"
  by (simp add: update_where_def assms)

lemma acceptDocument_found:
  assumes "findByPk d_id k (documents d) = Some doc"
    and "d_status doc = pending_review"
    and "findByPk r_id (requestId doc) (requests d) = Some req"
    and "r_professorId req = u_id prof"
  shows "fst (acceptDocument prof k d) = Json 200 ''Document accepted. Coordination request completed.''"
    and "findByPk d_id k (documents (snd (acceptDocument prof k d))) = Some (doc\<lparr>d_status := accepted\<rparr>)"
    and "findByPk r_id (requestId doc) (requests (snd (acceptDocument prof k d))) =
           Some (req\<lparr>r_status := completed\<rparr>)"
    and "users (snd (acceptDocument prof k d)) = users d"
    and "sessions (snd (acceptDocument prof k d)) = sessions d"
  using assms findByPk_Some_D[OF assms(1)] findByPk_Some_D[OF assms(3)]
  by (simp_all add: acceptDocument_def accept_def transaction_def in_tx_def commit_def
        findByPk_update_where)

lemma rejectDocument_found:
  assumes "findByPk d_id k (documents d) = Some doc"
    and "d_status doc = pending_review"
    and "findByPk r_id (requestId doc) (requests d) = Some req"
    and "r_professorId req = u_id prof"
    and "\<not> reason_missing reason"
  shows "fst (rejectDocument prof k reason d) =
           Json 200 ''Document rejected. Student must upload a new document.''"
    and "findByPk d_id k (documents (snd (rejectDocument prof k reason d))) =
           Some (doc\<lparr>d_status := doc_rejected, d_rejectionReason := Some (the reason)\<rparr>)"
    and "findByPk r_id (requestId doc) (requests (snd (rejectDocument prof k reason d))) =
           Some (req\<lparr>r_status := approved\<rparr>)"
    and "map d_id (documents (snd (rejectDocument prof k reason d))) = map d_id (documents d)"
    and "users (snd (rejectDocument prof k reason d)) = users d"
  using assms findByPk_Some_D[OF assms(1)] findByPk_Some_D[OF assms(3)]
  by (simp_all add: rejectDocument_def reject_document_def transaction_def in_tx_def commit_def
        findByPk_update_where map_pk_update_where)

lemma uploadDocument_student:
  assumes "findByPk r_id k (requests d) = Some req"
    and "r_status req = approved"
    and "studentId req = u_id stud"
    and "r_professorId req \<noteq> u_id stud"
    and "newId \<notin> set (map d_id (documents d))"
    and "upload_columns f"
    and "u_id stud \<in> set (map u_id (users d))"
  shows "fst (uploadDocument stud (Some f) k newId d) = Json 201 ''Document uploaded successfully''"
    and "findByPk r_id k (requests (snd (uploadDocument stud (Some f) k newId d))) =
           Some (req\<lparr>r_status := document_pending\<rparr>)"
    and "findByPk d_id newId (documents (snd (uploadDocument stud (Some f) k newId d))) =
           Some \<lparr>d_id = newId, requestId = k, uploadedBy = u_id stud,
                 uploaderRole = u_role stud, d_file = f,
                 d_status = pending_review, d_rejectionReason = None\<rparr>"
proof -
  have none: "findByPk d_id newId (documents d) = None"
    using assms(5) by (simp add: findByPk_None_iff)
  have k: "r_id req = k" using assms(1) by (simp add: findByPk_Some_D)
  have mem: "k \<in> set (map r_id (requests d))"
    using findByPk_Some_D[OF assms(1)] by force
  have c: "Document_create
             \<lparr>d_id = newId, requestId = k, uploadedBy = u_id stud,
              uploaderRole = u_role stud, d_file = f,
              d_status = pending_review, d_rejectionReason = None\<rparr> d =
           Inr (d\<lparr>documents := documents d @
             [\<lparr>d_id = newId, requestId = k, uploadedBy = u_id stud,
              uploaderRole = u_role stud, d_file = f,
              d_status = pending_review, d_rejectionReason = None\<rparr>]\<rparr>)"
    using assms(5,6,7) mem by (simp add: Document_create_def insert_row_def)
  show "fst (uploadDocument stud (Some f) k newId d) = Json 201 ''Document uploaded successfully''"
    using assms(1-4) c by (simp add: uploadDocument_def)
  show "findByPk r_id k (requests (snd (uploadDocument stud (Some f) k newId d))) =
           Some (req\<lparr>r_status := document_pending\<rparr>)"
    using assms(1-4) k c by (simp add: uploadDocument_def findByPk_update_where)
  show "findByPk d_id newId (documents (snd (uploadDocument stud (Some f) k newId d))) =
           Some \<lparr>d_id = newId, requestId = k, uploadedBy = u_id stud,
                 uploaderRole = u_role stud, d_file = f,
                 d_status = pending_review, d_rejectionReason = None\<rparr>"
    using assms(1-4) none c by (simp add: uploadDocument_def findByPk_append)
qed

text \<open>
  Claim C8. A request is \<open>document_pending\<close> with a document in \<open>pending_review\<close>;
  its sponsor and its applicant are two users on record. The sponsor's rejection, with a
  reason that \<open>trim\<close> does not empty, sets the document to rejected, with the reason,
  and the request back to approved. The applicant's next upload (of a file whose
  metadata the columns hold, under a fresh primary key) sets the request to
  \<open>document_pending\<close> and stores a new document in \<open>pending_review\<close>. The sponsor's
  acceptance of that document ends with the document accepted and the request completed.
  The last conjunct: a reason made of a no-break space, an em space and a byte order
  mark is white space for \<open>trim\<close>, and the rejection is refused.
\<close>

theorem document_reject_reupload_accept:
  assumes "findByPk d_id k (documents d) = Some doc"
    and "d_status doc = pending_review"
    and "findByPk r_id (requestId doc) (requests d) = Some req"
    and "r_status req = document_pending"
    and "r_professorId req = u_id prof"
    and "studentId req = u_id stud"
    and "u_id stud \<noteq> u_id prof"
    and "\<not> reason_missing reason"
    and "newId \<notin> set (map d_id (documents d))"
    and "upload_columns f"
    and "u_id stud \<in> set (map u_id (users d))"
    and "u_id prof \<in> set (map u_id (users d))"
  shows "(let R1 = rejectDocument prof k reason d;
             R2 = uploadDocument stud (Some f) (requestId doc) newId (snd R1);
             R3 = acceptDocument prof newId (snd R2)
         in fst R1 = Json 200 ''Document rejected. Student must upload a new document.'' \<and>
            findByPk d_id k (documents (snd R1)) =
              Some (doc\<lparr>d_status := doc_rejected, d_rejectionReason := Some (the reason)\<rparr>) \<and>
            findByPk r_id (requestId doc) (requests (snd R1)) = Some (req\<lparr>r_status := approved\<rparr>) \<and>
            fst R2 = Json 201 ''Document uploaded successfully'' \<and>
            findByPk r_id (requestId doc) (requests (snd R2)) =
              Some (req\<lparr>r_status := document_pending\<rparr>) \<and>
            findByPk d_id newId (documents (snd R2)) =
              Some \<lparr>d_id = newId, requestId = requestId doc, uploadedBy = u_id stud,
                    uploaderRole = u_role stud, d_file = f,
                    d_status = pending_review, d_rejectionReason = None\<rparr> \<and>
            fst R3 = Json 200 ''Document accepted. Coordination request completed.'' \<and>
            map_option d_status (findByPk d_id newId (documents (snd R3))) = Some accepted \<and>
            map_option r_status (findByPk r_id (requestId doc) (requests (snd R3))) = Some completed)
       \<and> (reason_missing (Some [0x00A0, 0x2003, 0xFEFF]) \<and>
          rejectDocument ex_prof 30 (Some [0x00A0, 0x2003, 0xFEFF]) ex_document_pending =
            (Fail 400 ''Rejection reason is required'', ex_document_pending))"
proof -
  define R1 where "R1 = rejectDocument prof k reason d"
  define R2 where "R2 = uploadDocument stud (Some f) (requestId doc) newId (snd R1)"
  define R3 where "R3 = acceptDocument prof newId (snd R2)"
  note r1 = rejectDocument_found[OF assms(1,2,3,5,8), folded R1_def]
  have fresh1: "newId \<notin> set (map d_id (documents (snd R1)))"
    using r1(4) assms(9) by simp
  have user1: "u_id stud \<in> set (map u_id (users (snd R1)))"
    using r1(5) assms(11) by simp
  have r2: "fst R2 = Json 201 ''Document uploaded successfully''"
    "findByPk r_id (requestId doc) (requests (snd R2)) = Some (req\<lparr>r_status := document_pending\<rparr>)"
    "findByPk d_id newId (documents (snd R2)) =
              Some \<lparr>d_id = newId, requestId = requestId doc, uploadedBy = u_id stud,
                    uploaderRole = u_role stud, d_file = f,
                    d_status = pending_review, d_rejectionReason = None\<rparr>"
    using uploadDocument_student[OF r1(3), of stud newId f] assms(5,6,7,10) fresh1 user1
    by (simp_all add: R2_def)
  have r3: "fst R3 = Json 200 ''Document accepted. Coordination request completed.''"
    "map_option d_status (findByPk d_id newId (documents (snd R3))) = Some accepted"
    "map_option r_status (findByPk r_id (requestId doc) (requests (snd R3))) = Some completed"
    using acceptDocument_found(1,2,3)[OF r2(3), of "req\<lparr>r_status := document_pending\<rparr>" prof]
      r2(2) assms(5)
    by (simp_all add: R3_def)
  have nbsp: "reason_missing (Some [0x00A0, 0x2003, 0xFEFF]) \<and>
          rejectDocument ex_prof 30 (Some [0x00A0, 0x2003, 0xFEFF]) ex_document_pending =
            (Fail 400 ''Rejection reason is required'', ex_document_pending)"
    by (simp add: rejectDocument_def reason_missing_def trim_def is_space_def)
  show ?thesis
    unfolding Let_def
    using r1(1,2,3) r2 r3 nbsp unfolding R1_def R2_def R3_def by simp
qed

theorem document_reject_reupload_accept_witness:
  "map_option r_status (findByPk r_id 20 (requests (snd (rejectDocument ex_prof 30 (Some (utf16 ''unsigned''))
      ex_document_pending)))) = Some approved \<and>
   map_option r_status (findByPk r_id 20 (requests (snd (acceptDocument ex_prof 32
     (snd (uploadDocument ex_studA (Some ex_file) 20 32
       (snd (rejectDocument ex_prof 30 (Some (utf16 ''unsigned'')) ex_document_pending)))))))) =
     Some completed"
proof -
  let ?doc = "\<lparr>d_id = 30, requestId = 20, uploadedBy = 2, uploaderRole = role_student,
      d_file = ex_file, d_status = pending_review, d_rejectionReason = None\<rparr>"
  let ?req = "\<lparr>r_id = 20, studentId = 2, r_professorId = 1, sessionId = 10,
          dissertationTopic = ''Type theory'', message = None,
          r_status = document_pending, r_rejectionReason = None\<rparr>"
  have 1: "findByPk d_id 30 (documents ex_document_pending) = Some ?doc"
    by (simp add: ex_document_pending_eval findByPk_def)
  have 2: "d_status ?doc = pending_review" by simp
  have 3: "findByPk r_id (requestId ?doc) (requests ex_document_pending) = Some ?req"
    by (simp add: ex_document_pending_eval findByPk_def)
  have 4: "r_status ?req = document_pending" "r_professorId ?req = u_id ex_prof"
     "studentId ?req = u_id ex_studA" "u_id ex_studA \<noteq> u_id ex_prof"
    by (simp_all add: ex_all)
  have 5: "\<not> reason_missing (Some (utf16 ''unsigned''))"
    by (simp add: reason_missing_def trim_def is_space_def utf16_def)
  have 6: "32 \<notin> set (map d_id (documents ex_document_pending))"
    by (simp add: ex_document_pending_eval)
  have 7: "upload_columns ex_file"
    by (simp add: ex_file_def upload_columns_def int4_def)
  have 8: "u_id ex_studA \<in> set (map u_id (users ex_document_pending))"
    by (simp add: ex_document_pending_eval ex_all)
  have 9: "u_id ex_prof \<in> set (map u_id (users ex_document_pending))"
    by (simp add: ex_document_pending_eval ex_all)
  from document_reject_reupload_accept[OF 1 2 3 4 5 6 7 8 9, THEN conjunct1]
  show ?thesis by (simp add: Let_def)
qed

subsection \<open>The sponsor's capacity\<close>

lemma findByPk_unique:
  assumes "distinct (map pk rows)" and "findByPk pk k rows = Some r"
    and "x \<in> set rows" and "pk x = k"
  shows "x = r"
proof -
  from assms(2) have "r \<in> set rows" "pk r = k" by (simp_all add: findByPk_Some_D)
  moreover from assms(1) have "inj_on pk (set rows)" by (simp add: distinct_map)
  ultimately show ?thesis using assms(3,4) by (auto dest: inj_onD)
qed

lemma createSession_users: "users (snd (createSession user b t n now d)) = users d"
  by (auto simp: createSession_def RegistrationSession_create_def Let_def split: sum.splits)

lemma updateSession_users: "users (snd (updateSession user k p now d)) = users d"
  by (auto simp: updateSession_def RegistrationSession_save_def Let_def updateStatus_frame
           split: option.splits sum.splits)

lemma deleteSession_users: "users (snd (deleteSession user k d)) = users d"
  by (auto simp: deleteSession_def RegistrationSession_destroy_def split: option.splits)

lemma getAllSessions_users: "users (snd (getAllSessions now d)) = users d"
  by (simp add: getAllSessions_def updateAllStatuses_def Let_def)

lemma getSessionById_users: "users (snd (getSessionById k now d)) = users d"
  by (auto simp: getSessionById_def updateStatus_frame split: option.splits)

lemma createRequest_users: "users (snd (createRequest user b n now d)) = users d"
proof (cases "findByPk s_id (b_sessionId b) (sessions d)")
  case None
  then show ?thesis by (simp add: createRequest_def)
next
  case (Some s)
  obtain s' d1 where u: "updateStatus s now d = (s', d1)" by (cases "updateStatus s now d")
  then have "users d1 = users d" using updateStatus_frame(1)[of s now d] by simp
  with Some u show ?thesis
    by (auto simp: createRequest_def CoordinationRequest_create_def split: sum.splits)
qed

lemma rejectRequest_users: "users (snd (rejectRequest user k reason d)) = users d"
  by (auto simp: rejectRequest_def reject_def split: option.splits)

lemma cancelRequest_users: "users (snd (cancelRequest user k d)) = users d"
  by (auto simp: cancelRequest_def CoordinationRequest_destroy_def split: option.splits)

lemma uploadDocument_users: "users (snd (uploadDocument user file k n d)) = users d"
  by (auto simp: uploadDocument_def Document_create_def Let_def split: option.splits sum.splits)

lemma acceptDocument_users: "users (snd (acceptDocument user k d)) = users d"
  by (auto simp: acceptDocument_def accept_def transaction_def in_tx_def commit_def
        split: option.splits)

lemma rejectDocument_users: "users (snd (rejectDocument user k reason d)) = users d"
  by (auto simp: rejectDocument_def reject_document_def transaction_def in_tx_def commit_def
        split: option.splits)

lemma handle_users: "\<not> is_approve x \<Longrightarrow> users (snd (handle x d)) = users d"
  by (cases x)
     (simp_all add: createSession_users updateSession_users deleteSession_users
        getAllSessions_users getSessionById_users createRequest_users rejectRequest_users
        cancelRequest_users uploadDocument_users acceptDocument_users rejectDocument_users)

lemma canBeApproved_None:
  assumes "canBeApproved this d = None"
  shows "\<exists>st pr. findByPk u_id (studentId this) (users d) = Some st \<and>
           approvedProfessorId st = None \<and>
           findByPk u_id (r_professorId this) (users d) = Some pr \<and>
           currentStudentCount pr < maxStudents pr"
  using assms by (auto simp: canBeApproved_def split: option.splits if_splits)

lemma approve_thrown:
  "fst (approve this d) \<noteq> None \<Longrightarrow> snd (approve this d) = d"
  by (cases "counter_refused this d")
     (auto simp: approve_def approve_transaction_refused approve_transaction_commits
        split: option.splits)

lemma approve_returns:
  assumes "fst (approve this d) = None"
  shows "canBeApproved this d = None"
    and "users (snd (approve this d)) =
           map (\<lambda>u. (if u_id u = r_professorId this
                       then (\<lambda>v. v\<lparr>currentStudentCount := currentStudentCount v + 1\<rparr>)
                       else (\<lambda>v. v))
                      (if u_id u = studentId this
                       then u\<lparr>approvedProfessorId := Some (r_professorId this)\<rparr> else u))
               (users d)"
    and "requests (snd (approve this d)) =
           map (\<lambda>r. if r_id r = r_id this then r\<lparr>r_status := approved\<rparr>
                     else if studentId r = studentId this \<and> r_status r = pending
                     then r\<lparr>r_status := rejected,
                            r_rejectionReason :=
                              Some (utf16 ''Student was approved by another professor'')\<rparr>
                     else r) (requests d)"
    and "documents (snd (approve this d)) = documents d"
proof -
  from assms show g: "canBeApproved this d = None"
    by (auto simp: approve_def split: option.splits)
  from assms g have n: "\<not> counter_refused this d"
    by (auto simp: approve_def approve_transaction_refused)
  from g approve_transaction_commits[OF n]
  show "users (snd (approve this d)) =
           map (\<lambda>u. (if u_id u = r_professorId this
                       then (\<lambda>v. v\<lparr>currentStudentCount := currentStudentCount v + 1\<rparr>)
                       else (\<lambda>v. v))
                      (if u_id u = studentId this
                       then u\<lparr>approvedProfessorId := Some (r_professorId this)\<rparr> else u))
               (users d)"
    and "requests (snd (approve this d)) =
           map (\<lambda>r. if r_id r = r_id this then r\<lparr>r_status := approved\<rparr>
                     else if studentId r = studentId this \<and> r_status r = pending
                     then r\<lparr>r_status := rejected,
                            r_rejectionReason :=
                              Some (utf16 ''Student was approved by another professor'')\<rparr>
                     else r) (requests d)"
    and "documents (snd (approve this d)) = documents d"
    by (simp_all add: approve_def)
qed

text \<open>When the guard of the first of two overlapping approvals refuses, the second runs
  as if alone.\<close>

lemma approve_overlapping_first_refused:
  assumes "canBeApproved a d = Some reason"
  shows "approve_overlapping a b d =
           (Some (Error reason), fst (approve b d), snd (approve b d))"
  using assms by (simp add: approve_overlapping_def approve_def split: option.splits prod.splits)

lemma approve_capacity:
  assumes pk: "users_pk d" and inv: "within_capacity d"
  shows "users_pk (snd (approve this d)) \<and> within_capacity (snd (approve this d))"
proof (cases "fst (approve this d)")
  case (Some e)
  then have "snd (approve this d) = d" by (simp add: approve_thrown)
  with assms show ?thesis by simp
next
  case None
  from canBeApproved_None[OF approve_returns(1)[OF None]] obtain pr where
    pr: "findByPk u_id (r_professorId this) (users d) = Some pr"
    "currentStudentCount pr < maxStudents pr" by blast
  note us = approve_returns(2)[OF None]
  have ids: "map u_id (users (snd (approve this d))) = map u_id (users d)"
    unfolding us by (simp add: comp_def)
  have "0 \<le> currentStudentCount u' \<and> currentStudentCount u' \<le> maxStudents u'"
    if "u' \<in> set (users (snd (approve this d)))" for u'
  proof -
    from that obtain u where u: "u \<in> set (users d)"
      "u' = (if u_id u = r_professorId this
                       then (\<lambda>v. v\<lparr>currentStudentCount := currentStudentCount v + 1\<rparr>)
                       else (\<lambda>v. v))
                      (if u_id u = studentId this
                       then u\<lparr>approvedProfessorId := Some (r_professorId this)\<rparr> else u)"
      unfolding us by auto
    from inv u(1) have b: "0 \<le> currentStudentCount u" "currentStudentCount u \<le> maxStudents u"
      by (auto simp: within_capacity_def)
    show ?thesis
    proof (cases "u_id u = r_professorId this")
      case True
      with findByPk_unique[OF pk[unfolded users_pk_def] pr(1) u(1)] have "u = pr" by simp
      with pr(2) b u(2) True show ?thesis by auto
    next
      case False
      with b u(2) show ?thesis by auto
    qed
  qed
  then show ?thesis using pk ids by (simp add: within_capacity_def users_pk_def)
qed

lemma approveRequest_approve:
  "snd (approveRequest user k d) = d \<or>
   (\<exists>this. findByPk r_id k (requests d) = Some this \<and> r_status this = pending \<and>
      r_professorId this = u_id user \<and>
      snd (approveRequest user k d) = snd (approve this d) \<and>
      (fst (approveRequest user k d) = Json 200 ''Request approved successfully'' \<longleftrightarrow>
         fst (approve this d) = None))"
  by (cases "findByPk r_id k (requests d)")
     (auto simp: approveRequest_def split: prod.splits option.splits)

lemma approveRequest_capacity:
  assumes "users_pk d" and "within_capacity d"
  shows "users_pk (snd (approveRequest user k d)) \<and> within_capacity (snd (approveRequest user k d))"
  using assms approve_capacity[OF assms] approveRequest_approve[of user k d] by auto

lemma handle_capacity:
  assumes "users_pk d" and "within_capacity d"
  shows "users_pk (snd (handle x d)) \<and> within_capacity (snd (handle x d))"
proof (cases "is_approve x")
  case True
  then obtain user k where "x = ApproveRequest user k" by (cases x) auto
  then show ?thesis using approveRequest_capacity[OF assms] by simp
next
  case False
  from handle_users[OF False] assms show ?thesis
    by (simp add: users_pk_def within_capacity_def)
qed

lemma approveRequest_guarded:
  assumes "fst (approveRequest user k d) = Json 200 ''Request approved successfully''"
  shows "\<exists>this pr. findByPk r_id k (requests d) = Some this \<and>
           findByPk u_id (r_professorId this) (users d) = Some pr \<and>
           currentStudentCount pr < maxStudents pr"
proof -
  from assms obtain this where t: "findByPk r_id k (requests d) = Some this"
    by (cases "findByPk r_id k (requests d)") (auto simp: approveRequest_def)
  with assms have "fst (approve this d) = None"
    by (auto simp: approveRequest_def split: if_splits prod.splits option.splits)
  from canBeApproved_None[OF approve_returns(1)[OF this]] t show ?thesis by blast
qed

text \<open>
  Handlers that run one at a time keep \<open>0 \<le> currentStudentCount \<le> maxStudents\<close>: no
  handler but an approval writes the users table, and an approval that succeeds found
  the sponsor's count strictly below \<open>maxStudents\<close> in the store it then writes.
\<close>

lemma run_within_capacity:
  assumes "users_pk d" and "within_capacity d"
  shows "within_capacity (run ops d) \<and> users_pk (run ops d)"
  using assms
proof (induction ops arbitrary: d)
  case Nil
  then show ?case by simp
next
  case (Cons x xs)
  from handle_capacity[OF Cons.prems] Cons.IH show ?case by simp
qed

subsection \<open>One accepted sponsor per applicant\<close>

lemma one_sponsor_distinct: "one_sponsor_rows us rs ds \<Longrightarrow> distinct (map r_id rs)"
  unfolding one_sponsor_rows_def by (rule conjunct1)

lemma one_sponsor_student:
  assumes "one_sponsor_rows us rs ds" and "r \<in> set rs" and "committed (r_status r)"
  shows "\<exists>st. findByPk u_id (studentId r) us = Some st \<and> approvedProfessorId st \<noteq> None"
proof -
  have "\<forall>r\<in>set rs. committed (r_status r) \<longrightarrow>
        (case findByPk u_id (studentId r) us of
           None \<Rightarrow> False
         | Some st \<Rightarrow> approvedProfessorId st \<noteq> None)"
    using assms(1)[unfolded one_sponsor_rows_def, THEN conjunct2, THEN conjunct1] .
  with assms(2,3) have "case findByPk u_id (studentId r) us of
           None \<Rightarrow> False
         | Some st \<Rightarrow> approvedProfessorId st \<noteq> None" by blast
  then show ?thesis by (cases "findByPk u_id (studentId r) us") simp_all
qed

lemma one_sponsor_unique:
  assumes "one_sponsor_rows us rs ds" and "r1 \<in> set rs" and "r2 \<in> set rs"
    and "committed (r_status r1)" and "committed (r_status r2)" and "studentId r1 = studentId r2"
  shows "r_id r1 = r_id r2"
proof -
  have "\<forall>r1\<in>set rs. \<forall>r2\<in>set rs.
        committed (r_status r1) \<and> committed (r_status r2) \<and> studentId r1 = studentId r2 \<longrightarrow>
        r_id r1 = r_id r2"
    using assms(1)[unfolded one_sponsor_rows_def, THEN conjunct2, THEN conjunct2, THEN conjunct1] .
  with assms(2-) show ?thesis by blast
qed

lemma one_sponsor_document:
  assumes "one_sponsor_rows us rs ds" and "doc \<in> set ds"
  shows "\<exists>r\<in>set rs. r_id r = requestId doc \<and> committed (r_status r)"
proof -
  have "\<forall>doc\<in>set ds. \<exists>r\<in>set rs. r_id r = requestId doc \<and> committed (r_status r)"
    using assms(1)[unfolded one_sponsor_rows_def, THEN conjunct2, THEN conjunct2, THEN conjunct2] .
  with assms(2) show ?thesis by blast
qed

lemma one_sponsor_rowsI:
  assumes "distinct (map r_id rs)"
    and "\<And>r. r \<in> set rs \<Longrightarrow> committed (r_status r) \<Longrightarrow>
           \<exists>st. findByPk u_id (studentId r) us = Some st \<and> approvedProfessorId st \<noteq> None"
    and "\<And>r1 r2. r1 \<in> set rs \<Longrightarrow> r2 \<in> set rs \<Longrightarrow> committed (r_status r1) \<Longrightarrow>
           committed (r_status r2) \<Longrightarrow> studentId r1 = studentId r2 \<Longrightarrow> r_id r1 = r_id r2"
    and "\<And>doc. doc \<in> set ds \<Longrightarrow> \<exists>r\<in>set rs. r_id r = requestId doc \<and> committed (r_status r)"
  shows "one_sponsor_rows us rs ds"
  unfolding one_sponsor_rows_def
proof (intro conjI ballI impI)
  show "distinct (map r_id rs)" by (rule assms(1))
next
  fix r assume "r \<in> set rs" "committed (r_status r)"
  from assms(2)[OF this] obtain st where
    "findByPk u_id (studentId r) us = Some st" "approvedProfessorId st \<noteq> None" by blast
  then show "case findByPk u_id (studentId r) us of None \<Rightarrow> False
          | Some st \<Rightarrow> approvedProfessorId st \<noteq> None" by simp
next
  fix r1 r2 assume "r1 \<in> set rs" "r2 \<in> set rs"
    "committed (r_status r1) \<and> committed (r_status r2) \<and> studentId r1 = studentId r2"
  then show "r_id r1 = r_id r2" using assms(3)[of r1 r2] by simp
next
  fix doc assume "doc \<in> set ds"
  then show "\<exists>r\<in>set rs. r_id r = requestId doc \<and> committed (r_status r)" by (rule assms(4))
qed

lemma one_sponsor_requests_map:
  assumes J: "one_sponsor_rows us rs ds"
    and g: "\<And>r. r \<in> set rs \<Longrightarrow> r_id (g r) = r_id r \<and> studentId (g r) = studentId r \<and>
               committed (r_status (g r)) = committed (r_status r)"
  shows "one_sponsor_rows us (map g rs) ds"
proof (rule one_sponsor_rowsI)
  have e: "map r_id (map g rs) = map r_id rs" using g by (induction rs) auto
  show "distinct (map r_id (map g rs))" unfolding e by (rule one_sponsor_distinct[OF J])
next
  fix r assume "r \<in> set (map g rs)" "committed (r_status r)"
  then obtain r0 where r0: "r0 \<in> set rs" "r = g r0" by auto
  with g[of r0] \<open>committed (r_status r)\<close> have "committed (r_status r0)" "studentId r = studentId r0"
    by simp_all
  with one_sponsor_student[OF J r0(1)]
  show "\<exists>st. findByPk u_id (studentId r) us = Some st \<and> approvedProfessorId st \<noteq> None" by simp
next
  fix r1 r2 assume "r1 \<in> set (map g rs)" "r2 \<in> set (map g rs)"
    and c: "committed (r_status r1)" "committed (r_status r2)" "studentId r1 = studentId r2"
  then obtain a b where ab: "a \<in> set rs" "r1 = g a" "b \<in> set rs" "r2 = g b" by auto
  with g[of a] g[of b] c have "committed (r_status a)" "committed (r_status b)"
        "studentId a = studentId b" by simp_all
  from one_sponsor_unique[OF J ab(1,3) this] have "r_id a = r_id b" .
  with g[of a] g[of b] ab show "r_id r1 = r_id r2" by simp
next
  fix doc assume "doc \<in> set ds"
  from one_sponsor_document[OF J this] obtain r where
    r: "r \<in> set rs" "r_id r = requestId doc" "committed (r_status r)" by blast
  with g[of r] have "g r \<in> set (map g rs)" "r_id (g r) = requestId doc" "committed (r_status (g r))"
    by simp_all
  then show "\<exists>r\<in>set (map g rs). r_id r = requestId doc \<and> committed (r_status r)" by blast
qed

lemma one_sponsor_documents:
  assumes J: "one_sponsor_rows us rs ds" and sub: "requestId ` set ds' \<subseteq> requestId ` set ds"
  shows "one_sponsor_rows us rs ds'"
proof (rule one_sponsor_rowsI)
  fix doc assume "doc \<in> set ds'"
  then have "requestId doc \<in> requestId ` set ds'" by (rule imageI)
  with sub have "requestId doc \<in> requestId ` set ds" by (rule set_mp)
  then obtain doc0 where d0: "doc0 \<in> set ds" "requestId doc0 = requestId doc"
    by (auto simp: image_iff)
  from one_sponsor_document[OF J d0(1)] d0(2)
  show "\<exists>r\<in>set rs. r_id r = requestId doc \<and> committed (r_status r)" by simp
next
  show "distinct (map r_id rs)" by (rule one_sponsor_distinct[OF J])
next
  fix r assume "r \<in> set rs" "committed (r_status r)"
  from one_sponsor_student[OF J this]
  show "\<exists>st. findByPk u_id (studentId r) us = Some st \<and> approvedProfessorId st \<noteq> None" .
next
  fix r1 r2 assume "r1 \<in> set rs" "r2 \<in> set rs"
    "committed (r_status r1)" "committed (r_status r2)" "studentId r1 = studentId r2"
  from one_sponsor_unique[OF J this] show "r_id r1 = r_id r2" .
qed

lemma one_sponsor_add_document:
  assumes J: "one_sponsor_rows us rs ds" and r: "r \<in> set rs" "committed (r_status r)"
    "requestId doc = r_id r"
  shows "one_sponsor_rows us rs (ds @ [doc])"
proof (rule one_sponsor_rowsI)
  fix x assume "x \<in> set (ds @ [doc])"
  then consider "x \<in> set ds" | "x = doc" by auto
  then show "\<exists>r\<in>set rs. r_id r = requestId x \<and> committed (r_status r)"
  proof cases
    case 1
    from one_sponsor_document[OF J this] show ?thesis .
  next
    case 2
    with r show ?thesis by auto
  qed
next
  show "distinct (map r_id rs)" by (rule one_sponsor_distinct[OF J])
next
  fix r assume "r \<in> set rs" "committed (r_status r)"
  from one_sponsor_student[OF J this]
  show "\<exists>st. findByPk u_id (studentId r) us = Some st \<and> approvedProfessorId st \<noteq> None" .
next
  fix r1 r2 assume "r1 \<in> set rs" "r2 \<in> set rs"
    "committed (r_status r1)" "committed (r_status r2)" "studentId r1 = studentId r2"
  from one_sponsor_unique[OF J this] show "r_id r1 = r_id r2" .
qed

lemma one_sponsor_add_request:
  assumes J: "one_sponsor_rows us rs ds" and n: "\<not> committed (r_status row)"
    and fresh: "r_id row \<notin> set (map r_id rs)"
  shows "one_sponsor_rows us (rs @ [row]) ds"
proof (rule one_sponsor_rowsI)
  show "distinct (map r_id (rs @ [row]))"
    using one_sponsor_distinct[OF J] fresh by simp
next
  fix r assume "r \<in> set (rs @ [row])" "committed (r_status r)"
  with n have "r \<in> set rs" by auto
  from one_sponsor_student[OF J this \<open>committed (r_status r)\<close>]
  show "\<exists>st. findByPk u_id (studentId r) us = Some st \<and> approvedProfessorId st \<noteq> None" .
next
  fix r1 r2 assume "r1 \<in> set (rs @ [row])" "r2 \<in> set (rs @ [row])"
    and c: "committed (r_status r1)" "committed (r_status r2)" "studentId r1 = studentId r2"
  with n have "r1 \<in> set rs" "r2 \<in> set rs" by auto
  from one_sponsor_unique[OF J this c] show "r_id r1 = r_id r2" .
next
  fix doc assume "doc \<in> set ds"
  from one_sponsor_document[OF J this]
  show "\<exists>r\<in>set (rs @ [row]). r_id r = requestId doc \<and> committed (r_status r)" by auto
qed

lemma one_sponsor_destroy:
  assumes J: "one_sponsor_rows us rs ds" and f: "findByPk r_id k rs = Some this"
    and n: "\<not> committed (r_status this)"
  shows "one_sponsor_rows us (destroy r_id k rs) ds"
proof (rule one_sponsor_rowsI)
  note d = one_sponsor_distinct[OF J]
  have sub: "r \<in> set rs" if "r \<in> set (destroy r_id k rs)" for r
    using that by (simp add: destroy_def)
  show "distinct (map r_id (destroy r_id k rs))"
    using d by (simp add: destroy_def distinct_map_filter)
  show "\<exists>st. findByPk u_id (studentId r) us = Some st \<and> approvedProfessorId st \<noteq> None"
    if "r \<in> set (destroy r_id k rs)" "committed (r_status r)" for r
    using one_sponsor_student[OF J sub[OF that(1)] that(2)] .
  show "r_id r1 = r_id r2"
    if "r1 \<in> set (destroy r_id k rs)" "r2 \<in> set (destroy r_id k rs)"
      "committed (r_status r1)" "committed (r_status r2)" "studentId r1 = studentId r2" for r1 r2
    using one_sponsor_unique[OF J sub[OF that(1)] sub[OF that(2)] that(3-)] .
  show "\<exists>r\<in>set (destroy r_id k rs). r_id r = requestId doc \<and> committed (r_status r)"
    if "doc \<in> set ds" for doc
  proof -
    from one_sponsor_document[OF J that] obtain r where
      r: "r \<in> set rs" "r_id r = requestId doc" "committed (r_status r)" by blast
    have "r_id r \<noteq> k" using findByPk_unique[OF d f r(1)] r(3) n by auto
    with r(1) have "r \<in> set (destroy r_id k rs)" by (simp add: destroy_def)
    with r show ?thesis by blast
  qed
qed

lemma committed_simps [simp]:
  "committed approved" "committed document_pending" "committed completed"
  "\<not> committed pending" "\<not> committed rejected"
  by (simp_all add: committed_def)

lemma one_sponsor_update_pk:
  assumes J: "one_sponsor_rows us rs ds" and f: "findByPk r_id k rs = Some this"
    and keep: "\<And>r. r_id (f r) = r_id r \<and> studentId (f r) = studentId r"
    and c: "committed (r_status (f this)) = committed (r_status this)"
  shows "one_sponsor_rows us (update_where (\<lambda>r. r_id r = k) f rs) ds"
  unfolding update_where_def
proof (rule one_sponsor_requests_map[OF J])
  fix r assume r: "r \<in> set rs"
  show "r_id (if r_id r = k then f r else r) = r_id r \<and>
        studentId (if r_id r = k then f r else r) = studentId r \<and>
        committed (r_status (if r_id r = k then f r else r)) = committed (r_status r)"
  proof (cases "r_id r = k")
    case True
    from findByPk_unique[OF one_sponsor_distinct[OF J] f r True] have "r = this" .
    with True keep[of this] c show ?thesis by simp
  next
    case False
    then show ?thesis by simp
  qed
qed

lemma one_sponsor_update_documents:
  assumes J: "one_sponsor_rows us rs ds" and keep: "\<And>x. requestId (f x) = requestId x"
  shows "one_sponsor_rows us rs (update_where wh f ds)"
proof (rule one_sponsor_documents[OF J])
  have "map requestId (update_where wh f ds) = map requestId ds"
    by (induction ds) (simp_all add: update_where_def keep)
  then have "set (map requestId (update_where wh f ds)) = set (map requestId ds)" by simp
  then show "requestId ` set (update_where wh f ds) \<subseteq> requestId ` set ds" by simp
qed

lemma createSession_frame:
  "users (snd (createSession user b t n now d)) = users d \<and>
   requests (snd (createSession user b t n now d)) = requests d \<and>
   documents (snd (createSession user b t n now d)) = documents d"
  by (auto simp: createSession_def RegistrationSession_create_def Let_def split: sum.splits)

lemma updateSession_frame:
  "users (snd (updateSession user k p now d)) = users d \<and>
   requests (snd (updateSession user k p now d)) = requests d \<and>
   documents (snd (updateSession user k p now d)) = documents d"
  by (auto simp: updateSession_def RegistrationSession_save_def Let_def updateStatus_frame
           split: option.splits sum.splits)

lemma one_sponsor_filter:
  assumes J: "one_sponsor_rows us rs ds"
    and keep: "\<And>r. r \<in> set rs \<Longrightarrow> committed (r_status r) \<Longrightarrow> P r"
  shows "one_sponsor_rows us (filter P rs) (filter Q ds)"
proof (rule one_sponsor_rowsI)
  show "distinct (map r_id (filter P rs))"
    using one_sponsor_distinct[OF J] by (simp add: distinct_map_filter)
  show "\<exists>st. findByPk u_id (studentId r) us = Some st \<and> approvedProfessorId st \<noteq> None"
    if "r \<in> set (filter P rs)" "committed (r_status r)" for r
    using one_sponsor_student[OF J _ that(2), of ] that(1) by simp
  show "r_id r1 = r_id r2"
    if "r1 \<in> set (filter P rs)" "r2 \<in> set (filter P rs)"
      "committed (r_status r1)" "committed (r_status r2)" "studentId r1 = studentId r2" for r1 r2
    using one_sponsor_unique[OF J _ _ that(3-)] that(1,2) by simp
  show "\<exists>r\<in>set (filter P rs). r_id r = requestId doc \<and> committed (r_status r)"
    if "doc \<in> set (filter Q ds)" for doc
  proof -
    from that have "doc \<in> set ds" by simp
    from one_sponsor_document[OF J this] obtain r where
      r: "r \<in> set rs" "r_id r = requestId doc" "committed (r_status r)" by blast
    from keep[OF r(1,3)] r(1) have "r \<in> set (filter P rs)" by simp
    with r show ?thesis by blast
  qed
qed

lemma deleteSession_one_sponsor:
  assumes "one_sponsor d"
  shows "one_sponsor (snd (deleteSession user k d))"
proof (cases "findByPk s_id k (sessions d)")
  case None
  with assms show ?thesis by (simp add: deleteSession_def)
next
  case (Some session)
  show ?thesis
  proof (cases "s_professorId session = u_id user \<and>
      \<not> list_ex (\<lambda>r. committed (r_status r))
          (filter (\<lambda>r. sessionId r = s_id session) (requests d))")
    case True
    then have keep: "sessionId r \<noteq> s_id session"
      if "r \<in> set (requests d)" "committed (r_status r)" for r
      using that by (auto simp: list_ex_iff)
    have "one_sponsor_rows (users d) (filter (\<lambda>r. sessionId r \<noteq> s_id session) (requests d))
            (filter (\<lambda>x. requestId x \<notin> set (map r_id
                      (filter (\<lambda>r. sessionId r = s_id session) (requests d)))) (documents d))"
      by (rule one_sponsor_filter[OF assms[unfolded one_sponsor_def]]) (rule keep)
    with True Some show ?thesis
      by (simp add: deleteSession_def RegistrationSession_destroy_def one_sponsor_def)
  next
    case False
    with Some assms show ?thesis by (auto simp: deleteSession_def)
  qed
qed

lemma getAllSessions_frame:
  "users (snd (getAllSessions now d)) = users d \<and>
   requests (snd (getAllSessions now d)) = requests d \<and>
   documents (snd (getAllSessions now d)) = documents d"
  by (simp add: getAllSessions_def updateAllStatuses_def Let_def)

lemma getSessionById_frame:
  "users (snd (getSessionById k now d)) = users d \<and>
   requests (snd (getSessionById k now d)) = requests d \<and>
   documents (snd (getSessionById k now d)) = documents d"
  by (auto simp: getSessionById_def updateStatus_frame split: option.splits)

lemma one_sponsor_frame:
  assumes "one_sponsor d" and "users d' = users d \<and> requests d' = requests d \<and> documents d' = documents d"
  shows "one_sponsor d'"
  using assms by (simp add: one_sponsor_def)

lemma createRequest_requests:
  "users (snd (createRequest user b n now d)) = users d \<and>
   documents (snd (createRequest user b n now d)) = documents d \<and>
   (requests (snd (createRequest user b n now d)) = requests d \<or>
    (\<exists>row. requests (snd (createRequest user b n now d)) = requests d @ [row] \<and>
       r_status row = pending \<and> r_id row \<notin> set (map r_id (requests d))))"
proof (cases "findByPk s_id (b_sessionId b) (sessions d)")
  case None
  then show ?thesis by (simp add: createRequest_def)
next
  case (Some s)
  obtain s' d1 where u: "updateStatus s now d = (s', d1)" by (cases "updateStatus s now d")
  then have f: "users d1 = users d" "requests d1 = requests d" "documents d1 = documents d"
    using updateStatus_frame(1,2,3)[of s now d] by simp_all
  with Some u show ?thesis
    by (auto simp: createRequest_def CoordinationRequest_create_def insert_row_def
             split: sum.splits if_splits)
qed

lemma createRequest_one_sponsor:
  assumes "one_sponsor d"
  shows "one_sponsor (snd (createRequest user b n now d))"
proof -
  let ?d' = "snd (createRequest user b n now d)"
  from createRequest_requests[of user b n now d]
  have f: "users ?d' = users d" "documents ?d' = documents d"
    and r: "requests ?d' = requests d \<or>
      (\<exists>row. requests ?d' = requests d @ [row] \<and>
         r_status row = pending \<and> r_id row \<notin> set (map r_id (requests d)))" by simp_all
  from r show ?thesis
  proof
    assume "requests ?d' = requests d"
    with f assms show ?thesis by (simp add: one_sponsor_def)
  next
    assume "\<exists>row. requests ?d' = requests d @ [row] \<and>
         r_status row = pending \<and> r_id row \<notin> set (map r_id (requests d))"
    then obtain row where row: "requests ?d' = requests d @ [row]" "r_status row = pending"
      "r_id row \<notin> set (map r_id (requests d))" by blast
    from row(2) have "\<not> committed (r_status row)" by simp
    from one_sponsor_add_request[OF assms[unfolded one_sponsor_def] this row(3)] f row(1)
    show ?thesis by (simp add: one_sponsor_def)
  qed
qed

lemma rejectRequest_one_sponsor:
  assumes "one_sponsor d"
  shows "one_sponsor (snd (rejectRequest user k reason d))"
proof (cases "findByPk r_id k (requests d)")
  case None
  with assms show ?thesis by (simp add: rejectRequest_def)
next
  case (Some this)
  then have k: "r_id this = k" by (simp add: findByPk_Some_D)
  show ?thesis
  proof (cases "\<not> reason_missing reason \<and> r_professorId this = u_id user \<and> r_status this = pending")
    case True
    have "one_sponsor_rows (users d)
            (update_where (\<lambda>r. r_id r = k)
               (\<lambda>r. r\<lparr>r_status := rejected, r_rejectionReason := Some (the reason)\<rparr>) (requests d))
            (documents d)"
      by (rule one_sponsor_update_pk[OF assms[unfolded one_sponsor_def] Some]) (simp_all add: True)
    with True Some k show ?thesis
      by (simp add: rejectRequest_def reject_def one_sponsor_def)
  next
    case False
    with Some assms show ?thesis by (auto simp: rejectRequest_def)
  qed
qed

lemma cancelRequest_one_sponsor:
  assumes "one_sponsor d"
  shows "one_sponsor (snd (cancelRequest user k d))"
proof (cases "findByPk r_id k (requests d)")
  case None
  with assms show ?thesis by (simp add: cancelRequest_def)
next
  case (Some this)
  then have k: "r_id this = k" by (simp add: findByPk_Some_D)
  show ?thesis
  proof (cases "studentId this = u_id user \<and> r_status this = pending")
    case True
    then have "\<not> committed (r_status this)" by simp
    from one_sponsor_destroy[OF assms[unfolded one_sponsor_def] Some this]
    have "one_sponsor_rows (users d) (destroy r_id k (requests d)) (documents d)" .
    from one_sponsor_documents[OF this, of "filter (\<lambda>x. requestId x \<noteq> k) (documents d)"]
    have "one_sponsor_rows (users d) (destroy r_id k (requests d))
            (filter (\<lambda>x. requestId x \<noteq> k) (documents d))" by auto
    with True Some k
    show ?thesis by (simp add: cancelRequest_def CoordinationRequest_destroy_def one_sponsor_def)
  next
    case False
    with Some assms show ?thesis by (auto simp: cancelRequest_def)
  qed
qed

lemma uploadDocument_cases:
  assumes "findByPk r_id k (requests d) = Some request"
  shows "snd (uploadDocument user (Some f) k n d) = d
       \<or> (studentId request = u_id user \<and> r_status request = approved \<and>
          snd (uploadDocument user (Some f) k n d) =
            d\<lparr>documents := documents d @
                  [\<lparr>d_id = n, requestId = k, uploadedBy = u_id user,
                    uploaderRole = u_role user, d_file = f,
                    d_status = pending_review, d_rejectionReason = None\<rparr>],
              requests := update_where (\<lambda>r. r_id r = k)
                  (\<lambda>r. r\<lparr>r_status := document_pending\<rparr>) (requests d)\<rparr>)
       \<or> (r_status request = document_pending \<and>
          snd (uploadDocument user (Some f) k n d) =
            d\<lparr>documents := documents d @
                  [\<lparr>d_id = n, requestId = k, uploadedBy = u_id user,
                    uploaderRole = u_role user, d_file = f,
                    d_status = pending_review, d_rejectionReason = None\<rparr>]\<rparr>)"
proof -
  from assms have k: "r_id request = k" by (simp add: findByPk_Some_D)
  show ?thesis
    using assms k
    by (auto simp: uploadDocument_def Let_def Document_create_def insert_row_def)
qed

lemma uploadDocument_one_sponsor:
  assumes J: "one_sponsor d"
  shows "one_sponsor (snd (uploadDocument user file k n d))"
proof (cases "file")
  case None
  with J show ?thesis by (simp add: uploadDocument_def)
next
  case (Some f)
  show ?thesis
  proof (cases "findByPk r_id k (requests d)")
    case None
    with Some J show ?thesis by (simp add: uploadDocument_def)
  next
    case req: (Some request)
    then have k: "r_id request = k" and mem: "request \<in> set (requests d)"
      by (simp_all add: findByPk_Some_D)
    let ?doc = "\<lparr>d_id = n, requestId = k, uploadedBy = u_id user,
                   uploaderRole = u_role user, d_file = f,
                   d_status = pending_review, d_rejectionReason = None\<rparr>"
    let ?rs = "update_where (\<lambda>r. r_id r = k) (\<lambda>r. r\<lparr>r_status := document_pending\<rparr>) (requests d)"
    consider
      (unchanged) "snd (uploadDocument user file k n d) = d"
    | (stud) "studentId request = u_id user" "r_status request = approved"
        "snd (uploadDocument user file k n d) = d\<lparr>documents := documents d @ [?doc], requests := ?rs\<rparr>"
    | (prof) "r_status request = document_pending"
        "snd (uploadDocument user file k n d) = d\<lparr>documents := documents d @ [?doc]\<rparr>"
      using uploadDocument_cases[OF req, of user f n] Some by blast
    then show ?thesis
    proof cases
      case unchanged
      with J show ?thesis by simp
    next
      case stud
      have 1: "one_sponsor_rows (users d) ?rs (documents d)"
        by (rule one_sponsor_update_pk[OF J[unfolded one_sponsor_def] req]) (simp_all add: stud(2))
      have 2: "request\<lparr>r_status := document_pending\<rparr> \<in> set ?rs"
        using mem k by (auto simp: update_where_def image_iff intro!: bexI[of _ request])
      have "one_sponsor_rows (users d) ?rs (documents d @ [?doc])"
        by (rule one_sponsor_add_document[OF 1 2]) (simp_all add: k)
      with stud(3) show ?thesis by (simp add: one_sponsor_def)
    next
      case prof
      have "one_sponsor_rows (users d) (requests d) (documents d @ [?doc])"
        by (rule one_sponsor_add_document[OF J[unfolded one_sponsor_def] mem]) (simp_all add: k prof(1))
      with prof(2) show ?thesis by (simp add: one_sponsor_def)
    qed
  qed
qed

lemma review_one_sponsor:
  assumes J: "one_sponsor d" and doc: "findByPk d_id k (documents d) = Some document"
    and req: "findByPk r_id (requestId document) (requests d) = Some request"
    and st: "committed st"
    and keep: "\<And>x. requestId (g x) = requestId x"
  shows "one_sponsor (d\<lparr>documents := update_where wh g (documents d),
           requests := update_where (\<lambda>r. r_id r = requestId document)
             (\<lambda>r. r\<lparr>r_status := st\<rparr>) (requests d)\<rparr>)"
proof -
  note J' = J[unfolded one_sponsor_def]
  from doc have "document \<in> set (documents d)" by (simp add: findByPk_Some_D)
  from one_sponsor_document[OF J' this] obtain r where
    r: "r \<in> set (requests d)" "r_id r = requestId document" "committed (r_status r)" by blast
  from findByPk_unique[OF one_sponsor_distinct[OF J'] req r(1,2)] r(3)
  have c: "committed (r_status request)" by simp
  have 1: "one_sponsor_rows (users d)
             (update_where (\<lambda>r. r_id r = requestId document)
                (\<lambda>r. r\<lparr>r_status := st\<rparr>) (requests d)) (documents d)"
    by (rule one_sponsor_update_pk[OF J' req]) (simp_all add: c st)
  from one_sponsor_update_documents[OF 1, of g wh] keep
  show ?thesis by (simp add: one_sponsor_def)
qed

lemma acceptDocument_one_sponsor:
  assumes J: "one_sponsor d"
  shows "one_sponsor (snd (acceptDocument user k d))"
proof (cases "findByPk d_id k (documents d)")
  case None
  with J show ?thesis by (simp add: acceptDocument_def)
next
  case doc: (Some document)
  show ?thesis
  proof (cases "findByPk r_id (requestId document) (requests d)")
    case None
    with doc J show ?thesis by (simp add: acceptDocument_def)
  next
    case (Some request)
    from review_one_sponsor[OF J doc Some, of completed "\<lambda>x. x\<lparr>d_status := accepted\<rparr>"
        "\<lambda>x. d_id x = d_id document"]
    have "one_sponsor (accept document d)"
      by (simp add: accept_def transaction_def in_tx_def commit_def)
    with J doc Some show ?thesis by (simp add: acceptDocument_def)
  qed
qed

lemma rejectDocument_one_sponsor:
  assumes J: "one_sponsor d"
  shows "one_sponsor (snd (rejectDocument user k reason d))"
proof (cases "findByPk d_id k (documents d)")
  case None
  with J show ?thesis by (simp add: rejectDocument_def)
next
  case doc: (Some document)
  show ?thesis
  proof (cases "findByPk r_id (requestId document) (requests d)")
    case None
    with doc J show ?thesis by (simp add: rejectDocument_def)
  next
    case (Some request)
    from review_one_sponsor[OF J doc Some, of approved
        "\<lambda>x. x\<lparr>d_status := doc_rejected, d_rejectionReason := Some (the reason)\<rparr>"
        "\<lambda>x. d_id x = d_id document"]
    have "one_sponsor (reject_document document (the reason) d)"
      by (simp add: reject_document_def transaction_def in_tx_def commit_def)
    with J doc Some show ?thesis by (simp add: rejectDocument_def)
  qed
qed

lemma approve_one_sponsor:
  assumes J: "one_sponsor d" and f: "findByPk r_id k (requests d) = Some this"
    and ok: "fst (approve this d) = None"
  shows "one_sponsor (snd (approve this d))"
proof -
  note J' = J[unfolded one_sponsor_def]
  note dist = one_sponsor_distinct[OF J']
  define g :: "CoordinationRequest \<Rightarrow> CoordinationRequest" where "g = (\<lambda>r. if r_id r = r_id this then r\<lparr>r_status := approved\<rparr>
                     else if studentId r = studentId this \<and> r_status r = pending
                     then r\<lparr>r_status := rejected,
                            r_rejectionReason := Some (utf16 ''Student was approved by another professor'')\<rparr>
                     else r)"
  define h :: "User \<Rightarrow> User" where "h = (\<lambda>u. (if u_id u = r_professorId this
                       then (\<lambda>v. v\<lparr>currentStudentCount := currentStudentCount v + 1\<rparr>)
                       else (\<lambda>v. v))
                      (if u_id u = studentId this
                       then u\<lparr>approvedProfessorId := Some (r_professorId this)\<rparr> else u))"
  have rs: "requests (snd (approve this d)) = map g (requests d)"
    and us: "users (snd (approve this d)) = map h (users d)"
    and ds: "documents (snd (approve this d)) = documents d"
    using approve_returns(3,2,4)[OF ok] by (simp_all add: g_def h_def)
  from canBeApproved_None[OF approve_returns(1)[OF ok]] obtain st where
    st: "findByPk u_id (studentId this) (users d) = Some st" "approvedProfessorId st = None"
    by blast
  from f have mem: "this \<in> set (requests d)" "r_id this = k" by (simp_all add: findByPk_Some_D)
  have same: "r = this" if "r \<in> set (requests d)" "r_id r = r_id this" for r
    using findByPk_unique[OF dist f that(1)] that(2) mem(2) by simp
  have g_id: "r_id (g r) = r_id r" "studentId (g r) = studentId r" for r
    by (simp_all add: g_def)
  have h_id: "u_id (h u) = u_id u" for u by (simp add: h_def)
  have h_ap: "approvedProfessorId (h u) \<noteq> None" if "approvedProfessorId u \<noteq> None" for u
    using that by (simp add: h_def)
  have find_h: "findByPk u_id a (map h (users d)) = map_option h (findByPk u_id a (users d))" for a
    unfolding findByPk_def by (rule find_map_pk) (rule h_id)
  have other: "g r = r \<and> committed (r_status r) \<and> studentId r \<noteq> studentId this"
    if r: "r \<in> set (requests d)" "r_id r \<noteq> r_id this" "committed (r_status (g r))" for r
  proof -
    from r(2,3) have 1: "g r = r" "committed (r_status r)"
      by (auto simp: g_def split: if_splits)
    from one_sponsor_student[OF J' r(1) 1(2)] st have "studentId r \<noteq> studentId this" by auto
    with 1 show ?thesis by simp
  qed
  have "one_sponsor_rows (map h (users d)) (map g (requests d)) (documents d)"
  proof (rule one_sponsor_rowsI)
    have e: "map r_id (map g xs) = map r_id xs" for xs
      by (induction xs) (simp_all add: g_id)
    show "distinct (map r_id (map g (requests d)))" unfolding e by (rule dist)
  next
    fix r' assume "r' \<in> set (map g (requests d))" and c: "committed (r_status r')"
    then obtain r where r: "r \<in> set (requests d)" "r' = g r" by auto
    show "\<exists>st. findByPk u_id (studentId r') (map h (users d)) = Some st \<and>
            approvedProfessorId st \<noteq> None"
    proof (cases "r_id r = r_id this")
      case True
      with same[OF r(1)] r(2) have "studentId r' = studentId this" by (simp add: g_id)
      moreover have "u_id st = studentId this" using st(1) by (simp add: findByPk_Some_D)
      then have "approvedProfessorId (h st) \<noteq> None" by (simp add: h_def)
      ultimately show ?thesis using st(1) by (simp add: find_h)
    next
      case False
      from other[OF r(1) False] c r(2) have o: "g r = r" "committed (r_status r)" by simp_all
      from one_sponsor_student[OF J' r(1) o(2)] obtain s0 where
        "findByPk u_id (studentId r) (users d) = Some s0" "approvedProfessorId s0 \<noteq> None" by blast
      with h_ap[of s0] r(2) o(1) show ?thesis by (simp add: find_h)
    qed
  next
    fix r1 r2 assume "r1 \<in> set (map g (requests d))" "r2 \<in> set (map g (requests d))"
      and c: "committed (r_status r1)" "committed (r_status r2)" "studentId r1 = studentId r2"
    then obtain a b where ab: "a \<in> set (requests d)" "r1 = g a" "b \<in> set (requests d)" "r2 = g b"
      by auto
    show "r_id r1 = r_id r2"
    proof (cases "r_id a = r_id this")
      case a: True
      show ?thesis
      proof (cases "r_id b = r_id this")
        case True
        with a ab show ?thesis by (simp add: g_id)
      next
        case False
        from other[OF ab(3) False] c(2) ab(4) have "studentId b \<noteq> studentId this" by simp
        moreover from same[OF ab(1) a] ab c(3) have "studentId b = studentId this"
          by (simp add: g_id)
        ultimately show ?thesis by simp
      qed
    next
      case a: False
      from other[OF ab(1) a] c(1) ab(2) have oa: "g a = a" "committed (r_status a)"
        "studentId a \<noteq> studentId this" by simp_all
      show ?thesis
      proof (cases "r_id b = r_id this")
        case True
        from same[OF ab(3) True] ab c(3) have "studentId a = studentId this" by (simp add: g_id)
        with oa(3) show ?thesis by simp
      next
        case False
        from other[OF ab(3) False] c(2) ab(4) have ob: "g b = b" "committed (r_status b)" by simp_all
        from c(3) ab(2,4) have "studentId a = studentId b" by (simp add: g_id)
        from one_sponsor_unique[OF J' ab(1,3) oa(2) ob(2) this] ab(2,4) show ?thesis
          by (simp add: g_id)
      qed
    qed
  next
    fix doc assume "doc \<in> set (documents d)"
    from one_sponsor_document[OF J' this] obtain r where
      r: "r \<in> set (requests d)" "r_id r = requestId doc" "committed (r_status r)" by blast
    have "committed (r_status (g r))" using r(3) by (auto simp: g_def)
    with r(1,2) have "g r \<in> set (map g (requests d)) \<and> r_id (g r) = requestId doc \<and>
        committed (r_status (g r))" by (simp add: g_id)
    then show "\<exists>r\<in>set (map g (requests d)). r_id r = requestId doc \<and> committed (r_status r)"
      by blast
  qed
  then show ?thesis by (simp add: one_sponsor_def rs us ds)
qed

lemma approveRequest_one_sponsor:
  assumes J: "one_sponsor d"
  shows "one_sponsor (snd (approveRequest user k d))"
proof -
  from approveRequest_approve[of user k d] show ?thesis
  proof
    assume "snd (approveRequest user k d) = d"
    with J show ?thesis by simp
  next
    assume "\<exists>this. findByPk r_id k (requests d) = Some this \<and> r_status this = pending \<and>
      r_professorId this = u_id user \<and>
      snd (approveRequest user k d) = snd (approve this d) \<and>
      (fst (approveRequest user k d) = Json 200 ''Request approved successfully'' \<longleftrightarrow>
         fst (approve this d) = None)"
    then obtain this where t: "findByPk r_id k (requests d) = Some this"
      "snd (approveRequest user k d) = snd (approve this d)" by blast
    show ?thesis
    proof (cases "fst (approve this d)")
      case None
      from approve_one_sponsor[OF J t(1) None] t(2) show ?thesis by simp
    next
      case (Some e)
      then have "snd (approve this d) = d" by (simp add: approve_thrown)
      with J t(2) show ?thesis by simp
    qed
  qed
qed

lemma handle_one_sponsor:
  assumes J: "one_sponsor d"
  shows "one_sponsor (snd (handle x d))"
proof (cases x)
  case (CreateSession user b t n now)
  with one_sponsor_frame[OF J createSession_frame] show ?thesis by simp
next
  case (UpdateSession user k p now)
  with one_sponsor_frame[OF J updateSession_frame] show ?thesis by simp
next
  case (DeleteSession user k)
  with deleteSession_one_sponsor[OF J] show ?thesis by simp
next
  case (GetAllSessions now)
  with one_sponsor_frame[OF J getAllSessions_frame] show ?thesis by simp
next
  case (GetSessionById k now)
  with one_sponsor_frame[OF J getSessionById_frame] show ?thesis by simp
next
  case (CreateRequest user b n now)
  with createRequest_one_sponsor[OF J] show ?thesis by simp
next
  case (ApproveRequest user k)
  with approveRequest_one_sponsor[OF J] show ?thesis by simp
next
  case (RejectRequest user k reason)
  with rejectRequest_one_sponsor[OF J] show ?thesis by simp
next
  case (CancelRequest user k)
  with cancelRequest_one_sponsor[OF J] show ?thesis by simp
next
  case (UploadDocument user fl k n)
  with uploadDocument_one_sponsor[OF J] show ?thesis by simp
next
  case (AcceptDocument user k)
  with acceptDocument_one_sponsor[OF J] show ?thesis by simp
next
  case (RejectDocument user k reason)
  with rejectDocument_one_sponsor[OF J] show ?thesis by simp
qed

lemma run_one_sponsor: "one_sponsor d \<Longrightarrow> one_sponsor (run ops d)"
proof (induction ops arbitrary: d)
  case Nil
  then show ?case by simp
next
  case (Cons x xs)
  from Cons.IH[OF handle_one_sponsor[OF Cons.prems]] show ?case by simp
qed

lemma at_most_one:
  assumes d: "distinct (map pk xs)"
    and u: "\<And>x y. x \<in> set xs \<Longrightarrow> y \<in> set xs \<Longrightarrow> P x \<Longrightarrow> P y \<Longrightarrow> pk x = pk y"
  shows "length (filter P xs) \<le> 1"
proof (rule ccontr)
  assume "\<not> length (filter P xs) \<le> 1"
  then obtain a b ys where ys: "filter P xs = a # b # ys"
    by (cases "filter P xs"; cases "tl (filter P xs)") auto
  have "distinct (map pk (filter P xs))" using d by (rule distinct_map_filter)
  with ys have ne: "pk a \<noteq> pk b" by simp
  have "a \<in> set (filter P xs)" "b \<in> set (filter P xs)" using ys by simp_all
  then have "a \<in> set xs" "b \<in> set xs" "P a" "P b" by simp_all
  from u[OF this] ne show False by simp
qed

lemma one_sponsor_at_most_one:
  assumes "one_sponsor d"
  shows "length (committed_of a d) \<le> 1"
  unfolding committed_of_def
proof (rule at_most_one[where pk = r_id])
  show "distinct (map r_id (requests d))"
    using assms by (simp add: one_sponsor_def one_sponsor_distinct)
next
  fix x y assume "x \<in> set (requests d)" "y \<in> set (requests d)"
    "studentId x = a \<and> committed (r_status x)" "studentId y = a \<and> committed (r_status y)"
  then show "r_id x = r_id y"
    using one_sponsor_unique[OF assms[unfolded one_sponsor_def], of x y] by simp
qed

lemma one_sponsor_initial: "requests d = [] \<Longrightarrow> documents d = [] \<Longrightarrow> one_sponsor d"
  unfolding one_sponsor_def by (rule one_sponsor_rowsI) simp_all

lemma committed_ids_map:
  assumes "\<And>r. r \<in> set rs \<Longrightarrow>
             r_id (g r) = r_id r \<and> committed (r_status (g r)) = committed (r_status r)"
  shows "map r_id (filter (\<lambda>r. committed (r_status r)) (map g rs)) =
         map r_id (filter (\<lambda>r. committed (r_status r)) rs)"
  using assms by (induction rs) auto

lemma committed_ids_update_pk:
  assumes J: "one_sponsor d" and f: "findByPk r_id k (requests d) = Some this"
    and keep: "\<And>r. r_id (f r) = r_id r"
    and c: "committed (r_status (f this)) = committed (r_status this)"
    and rs: "requests d' = update_where (\<lambda>r. r_id r = k) f (requests d)"
  shows "committed_ids d' = committed_ids d"
  unfolding committed_ids_def rs update_where_def
proof (rule committed_ids_map)
  fix r assume r: "r \<in> set (requests d)"
  show "r_id (if r_id r = k then f r else r) = r_id r \<and>
        committed (r_status (if r_id r = k then f r else r)) = committed (r_status r)"
  proof (cases "r_id r = k")
    case True
    from findByPk_unique[OF one_sponsor_distinct[OF J[unfolded one_sponsor_def]] f r True]
    have "r = this" .
    with True keep[of this] c show ?thesis by simp
  next
    case False
    then show ?thesis by simp
  qed
qed

lemma committed_ids_destroy:
  assumes J: "one_sponsor d" and f: "findByPk r_id k (requests d) = Some this"
    and n: "\<not> committed (r_status this)"
    and rs: "requests d' = destroy r_id k (requests d)"
  shows "committed_ids d' = committed_ids d"
proof -
  have "r_id r \<noteq> k" if "r \<in> set (requests d)" "committed (r_status r)" for r
    using findByPk_unique[OF one_sponsor_distinct[OF J[unfolded one_sponsor_def]] f that(1)]
      that(2) n by auto
  then have "filter (\<lambda>r. committed (r_status r)) (filter (\<lambda>r. r_id r \<noteq> k) (requests d)) =
        filter (\<lambda>r. committed (r_status r)) (requests d)"
    by (auto simp: filter_filter intro: filter_cong)
  then show ?thesis by (simp add: committed_ids_def rs destroy_def)
qed

lemma deleteSession_committed_ids:
  "committed_ids (snd (deleteSession user k d)) = committed_ids d"
proof (cases "findByPk s_id k (sessions d)")
  case None
  then show ?thesis by (simp add: deleteSession_def)
next
  case (Some session)
  show ?thesis
  proof (cases "s_professorId session = u_id user \<and>
      \<not> list_ex (\<lambda>r. committed (r_status r))
          (filter (\<lambda>r. sessionId r = s_id session) (requests d))")
    case True
    then have "sessionId r \<noteq> s_id session"
      if "r \<in> set (requests d)" "committed (r_status r)" for r
      using that by (auto simp: list_ex_iff)
    then have "filter (\<lambda>r. committed (r_status r))
                 (filter (\<lambda>r. sessionId r \<noteq> s_id session) (requests d)) =
               filter (\<lambda>r. committed (r_status r)) (requests d)"
      by (auto simp: filter_filter intro: filter_cong)
    with True Some show ?thesis
      by (simp add: deleteSession_def RegistrationSession_destroy_def committed_ids_def)
  next
    case False
    with Some show ?thesis by (auto simp: deleteSession_def)
  qed
qed

lemma committed_ids_frame: "requests d' = requests d \<Longrightarrow> committed_ids d' = committed_ids d"
  by (simp add: committed_ids_def)

lemma createRequest_committed_ids:
  "committed_ids (snd (createRequest user b n now d)) = committed_ids d"
  using createRequest_requests[of user b n now d] by (auto simp: committed_ids_def)

lemma rejectRequest_committed_ids:
  assumes J: "one_sponsor d"
  shows "committed_ids (snd (rejectRequest user k reason d)) = committed_ids d"
proof (cases "findByPk r_id k (requests d)")
  case None
  then show ?thesis by (simp add: rejectRequest_def)
next
  case (Some this)
  then have k: "r_id this = k" by (simp add: findByPk_Some_D)
  show ?thesis
  proof (cases "\<not> reason_missing reason \<and> r_professorId this = u_id user \<and> r_status this = pending")
    case True
    show ?thesis
      by (rule committed_ids_update_pk[OF J Some,
            where f = "\<lambda>r. r\<lparr>r_status := rejected, r_rejectionReason := Some (the reason)\<rparr>"])
         (use True Some k in \<open>simp_all add: rejectRequest_def reject_def\<close>)
  next
    case False
    with Some show ?thesis by (auto simp: rejectRequest_def)
  qed
qed

lemma cancelRequest_committed_ids:
  assumes J: "one_sponsor d"
  shows "committed_ids (snd (cancelRequest user k d)) = committed_ids d"
proof (cases "findByPk r_id k (requests d)")
  case None
  then show ?thesis by (simp add: cancelRequest_def)
next
  case (Some this)
  then have k: "r_id this = k" by (simp add: findByPk_Some_D)
  show ?thesis
  proof (cases "studentId this = u_id user \<and> r_status this = pending")
    case True
    show ?thesis
      by (rule committed_ids_destroy[OF J Some])
         (use True Some k in \<open>simp_all add: cancelRequest_def CoordinationRequest_destroy_def\<close>)
  next
    case False
    with Some show ?thesis by (auto simp: cancelRequest_def)
  qed
qed

lemma uploadDocument_committed_ids:
  assumes J: "one_sponsor d"
  shows "committed_ids (snd (uploadDocument user fl k n d)) = committed_ids d"
proof (cases fl)
  case None
  then show ?thesis by (simp add: uploadDocument_def)
next
  case (Some f)
  show ?thesis
  proof (cases "findByPk r_id k (requests d)")
    case None
    with Some show ?thesis by (simp add: uploadDocument_def)
  next
    case req: (Some request)
    from uploadDocument_cases[OF req, of user f n] show ?thesis
    proof (elim disjE conjE)
      assume "snd (uploadDocument user (Some f) k n d) = d"
      with Some show ?thesis by simp
    next
      assume a: "r_status request = approved"
        and s: "snd (uploadDocument user (Some f) k n d) =
            d\<lparr>documents := documents d @
                  [\<lparr>d_id = n, requestId = k, uploadedBy = u_id user,
                    uploaderRole = u_role user, d_file = f,
                    d_status = pending_review, d_rejectionReason = None\<rparr>],
              requests := update_where (\<lambda>r. r_id r = k)
                  (\<lambda>r. r\<lparr>r_status := document_pending\<rparr>) (requests d)\<rparr>"
      show ?thesis unfolding Some s
        by (rule committed_ids_update_pk[OF J req,
              where f = "\<lambda>r. r\<lparr>r_status := document_pending\<rparr>"]) (simp_all add: a)
    next
      assume "snd (uploadDocument user (Some f) k n d) =
            d\<lparr>documents := documents d @
                  [\<lparr>d_id = n, requestId = k, uploadedBy = u_id user,
                    uploaderRole = u_role user, d_file = f,
                    d_status = pending_review, d_rejectionReason = None\<rparr>]\<rparr>"
      with Some show ?thesis by (simp add: committed_ids_def)
    qed
  qed
qed

lemma review_committed_ids:
  assumes J: "one_sponsor d" and doc: "findByPk d_id k (documents d) = Some document"
    and req: "findByPk r_id (requestId document) (requests d) = Some request"
    and st: "committed st"
    and rs: "requests d' = update_where (\<lambda>r. r_id r = requestId document)
             (\<lambda>r. r\<lparr>r_status := st\<rparr>) (requests d)"
  shows "committed_ids d' = committed_ids d"
proof -
  note J' = J[unfolded one_sponsor_def]
  from doc have "document \<in> set (documents d)" by (simp add: findByPk_Some_D)
  from one_sponsor_document[OF J' this] obtain r where
    r: "r \<in> set (requests d)" "r_id r = requestId document" "committed (r_status r)" by blast
  from findByPk_unique[OF one_sponsor_distinct[OF J'] req r(1,2)] r(3)
  have c: "committed (r_status request)" by simp
  show ?thesis
    by (rule committed_ids_update_pk[OF J req, where f = "\<lambda>r. r\<lparr>r_status := st\<rparr>"])
       (simp_all add: c st rs)
qed

lemma acceptDocument_committed_ids:
  assumes J: "one_sponsor d"
  shows "committed_ids (snd (acceptDocument user k d)) = committed_ids d"
proof (cases "findByPk d_id k (documents d)")
  case None
  then show ?thesis by (simp add: acceptDocument_def)
next
  case doc: (Some document)
  show ?thesis
  proof (cases "findByPk r_id (requestId document) (requests d)")
    case None
    with doc show ?thesis by (simp add: acceptDocument_def)
  next
    case (Some request)
    have "committed_ids (accept document d) = committed_ids d"
      by (rule review_committed_ids[OF J doc Some, of completed]) (simp_all add: accept_def transaction_def in_tx_def commit_def)
    with doc Some show ?thesis by (simp add: acceptDocument_def)
  qed
qed

lemma rejectDocument_committed_ids:
  assumes J: "one_sponsor d"
  shows "committed_ids (snd (rejectDocument user k reason d)) = committed_ids d"
proof (cases "findByPk d_id k (documents d)")
  case None
  then show ?thesis by (simp add: rejectDocument_def)
next
  case doc: (Some document)
  show ?thesis
  proof (cases "findByPk r_id (requestId document) (requests d)")
    case None
    with doc show ?thesis by (simp add: rejectDocument_def)
  next
    case (Some request)
    have "committed_ids (reject_document document (the reason) d) = committed_ids d"
      by (rule review_committed_ids[OF J doc Some, of approved])
         (simp_all add: reject_document_def transaction_def in_tx_def commit_def)
    with doc Some show ?thesis by (simp add: rejectDocument_def)
  qed
qed

lemma handle_committed_ids:
  assumes J: "one_sponsor d" and x: "\<not> is_approve x"
  shows "committed_ids (snd (handle x d)) = committed_ids d"
proof (cases x)
  case (CreateSession user b t n now)
  with committed_ids_frame[of "snd (createSession user b t n now d)" d] createSession_frame
  show ?thesis by simp
next
  case (UpdateSession user k p now)
  with committed_ids_frame[of "snd (updateSession user k p now d)" d] updateSession_frame
  show ?thesis by simp
next
  case (DeleteSession user k)
  with deleteSession_committed_ids show ?thesis by simp
next
  case (GetAllSessions now)
  with committed_ids_frame[of "snd (getAllSessions now d)" d] getAllSessions_frame
  show ?thesis by simp
next
  case (GetSessionById k now)
  with committed_ids_frame[of "snd (getSessionById k now d)" d] getSessionById_frame
  show ?thesis by simp
next
  case (CreateRequest user b n now)
  with createRequest_committed_ids show ?thesis by simp
next
  case (ApproveRequest user k)
  with x show ?thesis by simp
next
  case (RejectRequest user k reason)
  with rejectRequest_committed_ids[OF J] show ?thesis by simp
next
  case (CancelRequest user k)
  with cancelRequest_committed_ids[OF J] show ?thesis by simp
next
  case (UploadDocument user fl k n)
  with uploadDocument_committed_ids[OF J] show ?thesis by simp
next
  case (AcceptDocument user k)
  with acceptDocument_committed_ids[OF J] show ?thesis by simp
next
  case (RejectDocument user k reason)
  with rejectDocument_committed_ids[OF J] show ?thesis by simp
qed

lemma approveRequest_refuses_committed:
  assumes "findByPk r_id k (requests d) = Some this"
    and "findByPk u_id (studentId this) (users d) = Some st"
    and "approvedProfessorId st \<noteq> None"
  shows "snd (approveRequest user k d) = d \<and>
         fst (approveRequest user k d) \<noteq> Json 200 ''Request approved successfully''"
  using assms
  by (auto simp: approveRequest_def approve_def canBeApproved_def split: option.splits)

text \<open>
  Handlers that run one at a time keep \<open>one_sponsor\<close>, so every applicant has at most
  one request whose status is approved, \<open>document_pending\<close> or completed.
\<close>

lemma run_at_most_one_committed:
  assumes "one_sponsor d"
  shows "length (committed_of a (run ops d)) \<le> 1"
  using one_sponsor_at_most_one[OF run_one_sponsor[OF assms]] .

subsection \<open>Slots\<close>

text \<open>
  Claim C2. The code at the failing input: a session with one slot (\<open>maxSlots = 1\<close>,
  \<open>availableSlots = 1\<close>) holds two pending requests of two applicants, and the sponsor
  has room for five. Both approvals succeed; the first leaves 0 slots, the second
  decrements past zero to \<open>-1\<close>, below the bound \<open>0 \<le> availableSlots\<close>.
\<close>

theorem approve_drives_availableSlots_negative:
  "map availableSlots (sessions (ex_two_pending ex_prof5)) = [1] \<and>
   map maxSlots (sessions (ex_two_pending ex_prof5)) = [1] \<and>
   fst (approveRequest ex_prof5 20 (ex_two_pending ex_prof5)) =
     Json 200 ''Request approved successfully'' \<and>
   map availableSlots (sessions (snd (approveRequest ex_prof5 20 (ex_two_pending ex_prof5)))) = [0] \<and>
   fst (approveRequest ex_prof5 21 (snd (approveRequest ex_prof5 20 (ex_two_pending ex_prof5)))) =
     Json 200 ''Request approved successfully'' \<and>
   map availableSlots (sessions (snd (approveRequest ex_prof5 21
      (snd (approveRequest ex_prof5 20 (ex_two_pending ex_prof5)))))) = [- 1]"
  by (simp add: ex_two_pending_eval ex_all code_defs)

subsection \<open>Acceptance of a counter-document\<close>

text \<open>
  Claim C10. \<open>acceptDocument\<close> by the request's sponsor on a document in
  \<open>pending_review\<close> succeeds and sets the request to completed, whatever the request's
  status was. The reachable state: from a \<open>document_pending\<close> request the sponsor
  uploads counter-document 31, then rejects the applicant's document 30 (the request is
  approved again); accepting document 31 moves the request from approved to completed.
\<close>

theorem acceptDocument_ignores_request_status:
  assumes "findByPk d_id k (documents d) = Some doc"
    and "d_status doc = pending_review"
    and "findByPk r_id (requestId doc) (requests d) = Some req"
    and "r_professorId req = u_id prof"
  shows "fst (acceptDocument prof k d) = Json 200 ''Document accepted. Coordination request completed.''
       \<and> findByPk r_id (requestId doc) (requests (snd (acceptDocument prof k d))) =
           Some (req\<lparr>r_status := completed\<rparr>)
       \<and> (map r_status (requests ex_document_pending) = [document_pending] \<and>
          fst (uploadDocument ex_prof (Some ex_file) 20 31 ex_document_pending) =
            Json 201 ''Document uploaded successfully'' \<and>
          map r_status (requests ex_counter_document) = [approved] \<and>
          map d_id (documents ex_counter_document) = [30, 31] \<and>
          map uploaderRole (documents ex_counter_document) = [role_student, role_professor] \<and>
          map d_status (documents ex_counter_document) = [doc_rejected, pending_review] \<and>
          fst (acceptDocument ex_prof 31 ex_counter_document) =
            Json 200 ''Document accepted. Coordination request completed.'' \<and>
          map r_status (requests (snd (acceptDocument ex_prof 31 ex_counter_document))) = [completed])"
proof -
  have "map r_status (requests ex_document_pending) = [document_pending] \<and>
          fst (uploadDocument ex_prof (Some ex_file) 20 31 ex_document_pending) =
            Json 201 ''Document uploaded successfully'' \<and>
          map r_status (requests ex_counter_document) = [approved] \<and>
          map d_id (documents ex_counter_document) = [30, 31] \<and>
          map uploaderRole (documents ex_counter_document) = [role_student, role_professor] \<and>
          map d_status (documents ex_counter_document) = [doc_rejected, pending_review] \<and>
          fst (acceptDocument ex_prof 31 ex_counter_document) =
            Json 200 ''Document accepted. Coordination request completed.'' \<and>
          map r_status (requests (snd (acceptDocument ex_prof 31 ex_counter_document))) = [completed]"
    by (simp add: ex_counter_document_def ex_document_pending_eval ex_all code_defs)
  with acceptDocument_found(1,3)[OF assms] show ?thesis by simp
qed

theorem acceptDocument_ignores_request_status_witness:
  "fst (acceptDocument ex_prof 30 ex_document_pending) =
     Json 200 ''Document accepted. Coordination request completed.'' \<and>
   map_option r_status (findByPk r_id 20 (requests (snd (acceptDocument ex_prof 30 ex_document_pending))))
     = Some completed"
proof -
  let ?doc = "\<lparr>d_id = 30, requestId = 20, uploadedBy = 2, uploaderRole = role_student,
      d_file = ex_file, d_status = pending_review, d_rejectionReason = None\<rparr>"
  let ?req = "\<lparr>r_id = 20, studentId = 2, r_professorId = 1, sessionId = 10,
          dissertationTopic = ''Type theory'', message = None,
          r_status = document_pending, r_rejectionReason = None\<rparr>"
  have 1: "findByPk d_id 30 (documents ex_document_pending) = Some ?doc"
    by (simp add: ex_document_pending_eval findByPk_def)
  have 2: "d_status ?doc = pending_review" by simp
  have 3: "findByPk r_id (requestId ?doc) (requests ex_document_pending) = Some ?req"
    by (simp add: ex_document_pending_eval findByPk_def)
  have 4: "r_professorId ?req = u_id ex_prof" by (simp add: ex_all)
  from acceptDocument_ignores_request_status[OF 1 2 3 4] show ?thesis by simp
qed

subsection \<open>Approvals that overlap\<close>

text \<open>
  Claim C4. The code at the failing input: a sponsor with \<open>maxStudents = 1\<close> and
  \<open>currentStudentCount = 0\<close> holds two pending requests of two applicants, and the two
  approvals overlap. Each handler has loaded its request; both guards read the store
  before either transaction begins, and both pass; both transactions commit. The
  sponsor's \<open>currentStudentCount\<close> is then 2, above \<open>maxStudents = 1\<close>. Run one after
  the other, the second approval is refused and the count stays 1.
\<close>

theorem approve_overlapping_exceeds_capacity:
  "findByPk r_id 20 (requests (ex_two_pending ex_prof)) = Some ex_request20 \<and>
   findByPk r_id 21 (requests (ex_two_pending ex_prof)) = Some ex_request21 \<and>
   r_professorId ex_request20 = u_id ex_prof \<and> r_professorId ex_request21 = u_id ex_prof \<and>
   r_status ex_request20 = pending \<and> r_status ex_request21 = pending \<and>
   map_option (\<lambda>u. (maxStudents u, currentStudentCount u))
     (findByPk u_id 1 (users (ex_two_pending ex_prof))) = Some (1, 0) \<and>
   canBeApproved ex_request20 (ex_two_pending ex_prof) = None \<and>
   canBeApproved ex_request21 (ex_two_pending ex_prof) = None \<and>
   fst (approve_overlapping ex_request20 ex_request21 (ex_two_pending ex_prof)) = None \<and>
   fst (snd (approve_overlapping ex_request20 ex_request21 (ex_two_pending ex_prof))) = None \<and>
   map r_status (requests (snd (snd
     (approve_overlapping ex_request20 ex_request21 (ex_two_pending ex_prof))))) =
     [approved, approved] \<and>
   map_option (\<lambda>u. (maxStudents u, currentStudentCount u))
     (findByPk u_id 1 (users (snd (snd
       (approve_overlapping ex_request20 ex_request21 (ex_two_pending ex_prof)))))) = Some (1, 2) \<and>
   map_option (\<lambda>u. (maxStudents u, currentStudentCount u))
     (findByPk u_id 1 (users (run [ApproveRequest ex_prof 20, ApproveRequest ex_prof 21]
       (ex_two_pending ex_prof)))) = Some (1, 1)"
  by (simp add: ex_two_pending_eval ex_all code_defs)

text \<open>
  Claim C5. The code at the failing input: applicant 2 has no committed request and two
  pending requests, 20 to sponsor 1 and 22 to sponsor 4, and the two sponsors' approvals
  overlap. Both guards read the store before either transaction begins, and both pass.
  The first transaction rejects request 22 in its cascade; the second sets the status of
  its instance, request 22, to approved. The applicant then has two approved requests,
  \<open>approvedProfessorId\<close> names the second sponsor only, and both sponsors have counted
  the applicant. Run one after the other, the second approval is refused and request 20
  is the applicant's only committed request.
\<close>

theorem approve_overlapping_two_sponsors:
  "findByPk r_id 20 (requests ex_cascade) = Some ex_request20 \<and>
   findByPk r_id 22 (requests ex_cascade) = Some ex_request22 \<and>
   r_professorId ex_request20 = u_id ex_prof5 \<and> r_professorId ex_request22 = u_id ex_profQ \<and>
   r_status ex_request20 = pending \<and> r_status ex_request22 = pending \<and>
   studentId ex_request20 = u_id ex_studA \<and> studentId ex_request22 = u_id ex_studA \<and>
   committed_of (u_id ex_studA) ex_cascade = [] \<and>
   canBeApproved ex_request20 ex_cascade = None \<and>
   canBeApproved ex_request22 ex_cascade = None \<and>
   fst (approve_overlapping ex_request20 ex_request22 ex_cascade) = None \<and>
   fst (snd (approve_overlapping ex_request20 ex_request22 ex_cascade)) = None \<and>
   map (\<lambda>r. (r_id r, r_professorId r, r_status r))
     (committed_of (u_id ex_studA)
        (snd (snd (approve_overlapping ex_request20 ex_request22 ex_cascade)))) =
     [(20, 1, approved), (22, 4, approved)] \<and>
   map_option approvedProfessorId (findByPk u_id 2 (users (snd (snd
     (approve_overlapping ex_request20 ex_request22 ex_cascade))))) = Some (Some 4) \<and>
   map currentStudentCount (users (snd (snd
     (approve_overlapping ex_request20 ex_request22 ex_cascade)))) = [1, 0, 0, 1] \<and>
   map (\<lambda>r. (r_id r, r_professorId r, r_status r))
     (committed_of (u_id ex_studA)
        (run [ApproveRequest ex_prof5 20, ApproveRequest ex_profQ 22] ex_cascade)) =
     [(20, 1, approved)]"
  by (simp add: ex_cascade_eval ex_all code_defs committed_of_def)

end
